theory Spec2Isabelle
  imports Main "HOL-Library.Word"
begin

unbundle bit_operations_syntax

section \<open>Machine types and C arithmetic\<close>

text \<open>
  The program is C. \<open>uint8_t\<close>, \<open>uint16_t\<close>/\<open>int16_t\<close> and \<open>uint32_t\<close> are words of
  that width; a 16-bit word is read with \<open>uint\<close> where the C type is unsigned and with
  \<open>sint\<close> where it is signed. Values of C type \<open>int\<close> that the program only counts with
  (cursor indices, sample counters, flags, limits) are modelled as \<open>int\<close>: the cursor
  indices are clamped, the flags are 0 or 1 and the sample counter is cleared as soon as
  it exceeds \<open>reset_limit\<close>, so none of them comes near \<open>2^31\<close>.
\<close>

type_synonym u8 = "8 word"
type_synonym u16 = "16 word"
type_synonym i16 = "16 word"
type_synonym u32 = "32 word"

text \<open>C's \<open>/\<close> and \<open>%\<close> on \<open>int\<close> truncate towards zero.\<close>

definition c_div :: "int \<Rightarrow> int \<Rightarrow> int" where
  "c_div x y = sgn x * sgn y * (\<bar>x\<bar> div \<bar>y\<bar>)"

definition c_mod :: "int \<Rightarrow> int \<Rightarrow> int" where
  "c_mod x y = x - y * c_div x y"

subsection \<open>printf conversions\<close>

fun dec_digits :: "nat \<Rightarrow> string" where
  "dec_digits n =
     (if n < 10 then [''0123456789'' ! n]
      else dec_digits (n div 10) @ [''0123456789'' ! (n mod 10)])"

fun hex_digits :: "nat \<Rightarrow> string" where
  "hex_digits n =
     (if n < 16 then [''0123456789abcdef'' ! n]
      else hex_digits (n div 16) @ [''0123456789abcdef'' ! (n mod 16)])"

text \<open>\<open>%d\<close>\<close>

definition fmt_d :: "int \<Rightarrow> string" where
  "fmt_d i = (if i < 0 then ''-'' @ dec_digits (nat (- i)) else dec_digits (nat i))"

text \<open>\<open>%x\<close>, for the non-negative arguments the program passes\<close>

definition fmt_x :: "int \<Rightarrow> string" where
  "fmt_x i = hex_digits (nat i)"

text \<open>\<open>%02x\<close>: at least two digits, padded with \<open>0\<close> on the left\<close>

definition fmt_02x :: "int \<Rightarrow> string" where
  "fmt_02x i = (let s = fmt_x i in replicate (2 - length s) (CHR ''0'') @ s)"

section \<open>The bit packet of a protocol instance\<close>

definition BITBUF_COLS :: nat where "BITBUF_COLS = 5"
definition BITBUF_ROWS :: nat where "BITBUF_ROWS = 12"

text \<open>
  \<open>struct protocol_state\<close>. \<open>bits_buffer\<close> is the array
  \<open>uint8_t bits_buffer[BITBUF_ROWS][BITBUF_COLS]\<close>, a list of rows.
\<close>

record protocol_state =
  bits_col_idx :: int
  bits_row_idx :: int
  bits_bit_col_idx :: int
  bits_buffer :: "u8 list list"
  pulse_length :: int
  pulse_count :: int
  pulse_distance :: int
  sample_counter :: int
  start_c :: int
  short_limit :: int
  long_limit :: int
  reset_limit :: int

text \<open>
  Text written to \<open>stderr\<close>: one list element per \<open>fprintf\<close> call, in the order of the
  calls. Every function that prints returns what it printed.
\<close>

type_synonym stderr = "string list"

definition demod_reset_bits_packet :: "protocol_state \<Rightarrow> protocol_state" where
  "demod_reset_bits_packet p =
     p\<lparr>bits_buffer := replicate BITBUF_ROWS (replicate BITBUF_COLS 0),
       bits_col_idx := 0,
       bits_bit_col_idx := 7,
       bits_row_idx := 0\<rparr>"

text \<open>
  \<open>p->bits_buffer[row][col] |= bit << bit_col_idx\<close>. The store is defined only inside
  the array, and the shift only for a count from 0 to 30; anywhere else the C program
  has no defined behaviour and the model returns \<open>None\<close>. The value stored is the low
  byte of the \<open>int\<close> result of the \<open>|\<close>. The program passes the bits 0 and 1 only; for
  any other \<open>int\<close> the model stores the low byte of the shifted value.
\<close>

definition bits_store :: "protocol_state \<Rightarrow> int \<Rightarrow> protocol_state option" where
  "bits_store p b =
     (let r = bits_row_idx p; c = bits_col_idx p; k = bits_bit_col_idx p in
      if 0 \<le> r \<and> r < int BITBUF_ROWS \<and> 0 \<le> c \<and> c < int BITBUF_COLS \<and> 0 \<le> k \<and> k < 31
      then let row = bits_buffer p ! nat r;
               v = (row ! nat c) OR (word_of_int (b * 2 ^ nat k) :: u8)
           in Some (p\<lparr>bits_buffer := (bits_buffer p)[nat r := row[nat c := v]]\<rparr>)
      else None)"

definition demod_add_bit :: "protocol_state \<Rightarrow> int \<Rightarrow> (protocol_state \<times> stderr) option" where
  "demod_add_bit p b =
     (case bits_store p b of
        None \<Rightarrow> None
      | Some p1 \<Rightarrow>
          let p2 = p1\<lparr>bits_bit_col_idx := bits_bit_col_idx p1 - 1\<rparr> in
          if bits_bit_col_idx p2 < 0 then
            let p3 = p2\<lparr>bits_bit_col_idx := 7, bits_col_idx := bits_col_idx p2 + 1\<rparr> in
            if bits_col_idx p3 > 4
            then Some (p3\<lparr>bits_col_idx := 4\<rparr>, [''p->bits_col_idx>4!\<newline>''])
            else Some (p3, [])
          else Some (p2, []))"

definition demod_next_bits_packet :: "protocol_state \<Rightarrow> protocol_state \<times> stderr" where
  "demod_next_bits_packet p =
     (let p1 = p\<lparr>bits_col_idx := 0,
                 bits_row_idx := bits_row_idx p + 1,
                 bits_bit_col_idx := 7\<rparr> in
      if bits_row_idx p1 > 11
      then (p1\<lparr>bits_row_idx := 11\<rparr>, [''p->bits_row_idx>11!\<newline>''])
      else (p1, []))"

section \<open>The frame decoder\<close>

text \<open>\<open>p->bits_buffer[i][j]\<close>, read at constant indices inside the array\<close>

definition bb :: "protocol_state \<Rightarrow> nat \<Rightarrow> nat \<Rightarrow> u8" where
  "bb p i j = bits_buffer p ! i ! j"

text \<open>The three nested loops that dump all rows bit by bit, most significant bit first.\<close>

definition dump_byte :: "u8 \<Rightarrow> stderr" where
  "dump_byte v = map (\<lambda>k. if bit v k then ''1 '' else ''0 '') (rev [0..<8]) @ ['' '']"

definition dump_row :: "protocol_state \<Rightarrow> nat \<Rightarrow> stderr" where
  "dump_row p i = concat (map (\<lambda>j. dump_byte (bb p i j)) [0..<BITBUF_COLS]) @ [''\<newline>'']"

definition dump_rows :: "protocol_state \<Rightarrow> stderr" where
  "dump_rows p = concat (map (dump_row p) [0..<BITBUF_ROWS])"

text \<open>
  \<open>temp = (int16_t)((uint16_t)(bits_buffer[0][1] << 12) | (bits_buffer[0][2] << 4));\<close>
  \<open>temp = temp >> 4;\<close>
  The bytes are promoted to \<open>int\<close> (32 bits) before the shifts, the first shifted value is
  cut to 16 bits, the \<open>|\<close> is on \<open>int\<close> again, and the result is cut to \<open>int16_t\<close>. The
  final shift is arithmetic.
\<close>

definition rubicson_temp :: "protocol_state \<Rightarrow> i16" where
  "rubicson_temp p =
     (let hi = (ucast (push_bit 12 (ucast (bb p 0 1) :: u32)) :: u16);
          t = (ucast ((ucast hi :: u32) OR push_bit 4 (ucast (bb p 0 2) :: u32)) :: i16)
      in signed_drop_bit 4 t)"

text \<open>
  \<open>temp2 = (int16_t)((uint16_t)(bits_buffer[1][2] << 8) | (bits_buffer[1][3]&0xF0));\<close>
  \<open>temp2 = temp2 >> 4;\<close>
\<close>

definition prologue_temp :: "protocol_state \<Rightarrow> i16" where
  "prologue_temp p =
     (let hi = (ucast (push_bit 8 (ucast (bb p 1 2) :: u32)) :: u16);
          t = (ucast ((ucast hi :: u32) OR ((ucast (bb p 1 3) :: u32) AND 0xF0)) :: i16)
      in signed_drop_bit 4 t)"

text \<open>The argument of the \<open>channel\<close> line: \<open>(bits_buffer[1][1]&0x03)+1\<close>, an \<open>int\<close>.\<close>

definition prologue_channel :: "protocol_state \<Rightarrow> int" where
  "prologue_channel p = uint (bb p 1 1 AND 0x03) + 1"

text \<open>\<open>rid = ((bits_buffer[1][0]&0x0F)<<4)|(bits_buffer[1][1]&0xF0)>>4;\<close>\<close>

definition prologue_rid :: "protocol_state \<Rightarrow> int" where
  "prologue_rid p =
     uint (push_bit 4 (ucast (bb p 1 0 AND 0x0F) :: u32)
           OR drop_bit 4 (ucast (bb p 1 1 AND 0xF0) :: u32))"

text \<open>The \<open>%s%d.%d\<close> conversion of a temperature in tenths of a degree.\<close>

definition fmt_temp :: "i16 \<Rightarrow> string" where
  "fmt_temp t =
     (if sint t < 0 then ''-'' else '''') @ fmt_d \<bar>c_div (sint t) 10\<bar> @ ''.''
       @ fmt_d \<bar>c_mod (sint t) 10\<bar>"

text \<open>The seven lines printed for the Prologue sensor, from row 1.\<close>

definition prologue_lines :: "protocol_state \<Rightarrow> stderr" where
  "prologue_lines p =
     [''button        = '' @ fmt_d (if bb p 1 1 AND 0x04 \<noteq> 0 then 1 else 0) @ ''\<newline>'',
      ''first reading = '' @ fmt_d (if bb p 1 1 AND 0x08 \<noteq> 0 then 0 else 1) @ ''\<newline>'',
      ''temp          = '' @ fmt_temp (prologue_temp p) @ ''\<newline>'',
      ''channel       = '' @ fmt_d (prologue_channel p) @ ''\<newline>'',
      ''id            = '' @ fmt_d (uint (drop_bit 4 (bb p 1 0 AND 0xF0))) @ ''\<newline>'',
      ''rid           = '' @ fmt_d (prologue_rid p) @ ''\<newline>'',
      ''hrid          = '' @ fmt_02x (prologue_rid p) @ ''\<newline>'']"

text \<open>The two lines printed for the Rubicson sensor, from row 0.\<close>

definition rubicson_lines :: "protocol_state \<Rightarrow> stderr" where
  "rubicson_lines p =
     [''rid = '' @ fmt_x (uint (bb p 0 0)) @ ''\<newline>'',
      ''temp = '' @ fmt_temp (rubicson_temp p) @ ''\<newline>'']"

definition demod_print_bits_packet :: "protocol_state \<Rightarrow> stderr" where
  "demod_print_bits_packet p =
     [''\<newline>''] @ dump_rows p @ [''\<newline>'']
     @ [fmt_02x (uint (bb p 1 0)) @ '' '' @ fmt_02x (uint (bb p 1 1)) @ '' ''
        @ fmt_02x (uint (bb p 1 2)) @ '' '' @ fmt_02x (uint (bb p 1 3)) @ '' ''
        @ fmt_02x (uint (bb p 1 4)) @ ''\<newline>'']
     @ prologue_lines p
     @ rubicson_lines p
     @ [''\<newline>'']"

section \<open>The pulse-width demodulator\<close>

text \<open>
  One iteration of the loop of \<open>pwm_demod\<close> on the sample \<open>buf[i]\<close>, an \<open>int16_t\<close> that
  is compared with the \<open>int32_t\<close> \<open>demod->level_limit\<close>. The iteration has two parts.
  The first four statements detect the pulse edges, count the sample and classify the
  gap at a rising edge.
\<close>

definition pwm_demod_pulse ::
  "int \<Rightarrow> protocol_state \<Rightarrow> i16 \<Rightarrow> (protocol_state \<times> stderr) option" where
  "pwm_demod_pulse level_limit p s =
     (let p1 = (if sint s > level_limit then p\<lparr>pulse_count := 1, start_c := 1\<rparr> else p);
          p2 = (if pulse_count p1 \<noteq> 0 \<and> sint s < level_limit
                then p1\<lparr>pulse_length := 0, pulse_distance := 1,
                        sample_counter := 0, pulse_count := 0\<rparr>
                else p1);
          p3 = (if start_c p2 \<noteq> 0 then p2\<lparr>sample_counter := sample_counter p2 + 1\<rparr>
                else p2)
      in if pulse_distance p3 \<noteq> 0 \<and> sint s > level_limit then
           (if sample_counter p3 < short_limit p3 then
              (case demod_add_bit p3 0 of
                 None \<Rightarrow> None
               | Some (q, e) \<Rightarrow> Some (q\<lparr>pulse_distance := 0\<rparr>, e))
            else if sample_counter p3 < long_limit p3 then
              (case demod_add_bit p3 1 of
                 None \<Rightarrow> None
               | Some (q, e) \<Rightarrow> Some (q\<lparr>pulse_distance := 0\<rparr>, e))
            else
              (case demod_next_bits_packet p3 of
                 (q, e) \<Rightarrow>
                   Some (q\<lparr>pulse_count := 0, sample_counter := 0, pulse_distance := 0\<rparr>, e)))
         else Some (p3, []))"

text \<open>The last statement of the iteration: the packet ends when the counter has passed
  \<open>reset_limit\<close>; it is printed and cleared.\<close>

definition pwm_demod_reset :: "protocol_state \<Rightarrow> protocol_state \<times> stderr" where
  "pwm_demod_reset p =
     (if sample_counter p > reset_limit p then
        (let p1 = p\<lparr>start_c := 0, sample_counter := 0, pulse_distance := 0\<rparr>
         in (demod_reset_bits_packet p1, demod_print_bits_packet p1))
      else (p, []))"

definition pwm_demod_sample ::
  "int \<Rightarrow> protocol_state \<Rightarrow> i16 \<Rightarrow> (protocol_state \<times> stderr) option" where
  "pwm_demod_sample level_limit p s =
     (case pwm_demod_pulse level_limit p s of
        None \<Rightarrow> None
      | Some (p4, e) \<Rightarrow> (case pwm_demod_reset p4 of (p5, e') \<Rightarrow> Some (p5, e @ e')))"

text \<open>The loop over the \<open>len\<close> samples of \<open>buf\<close>, here the list of these samples.\<close>

fun pwm_demod :: "int \<Rightarrow> protocol_state \<Rightarrow> i16 list \<Rightarrow> (protocol_state \<times> stderr) option" where
  "pwm_demod level_limit p [] = Some (p, [])"
| "pwm_demod level_limit p (s # buf) =
     (case pwm_demod_sample level_limit p s of
        None \<Rightarrow> None
      | Some (p', e) \<Rightarrow>
          (case pwm_demod level_limit p' buf of
             None \<Rightarrow> None
           | Some (p'', e') \<Rightarrow> Some (p'', e @ e')))"

text \<open>
  The protocol instances as \<open>main\<close> builds them: \<open>calloc\<close> clears the structure, the three
  limits are set and the bit packet is reset.
\<close>

definition protocol_init :: "int \<Rightarrow> int \<Rightarrow> int \<Rightarrow> protocol_state" where
  "protocol_init sl ll rl =
     demod_reset_bits_packet
       \<lparr>bits_col_idx = 0, bits_row_idx = 0, bits_bit_col_idx = 0,
        bits_buffer = replicate BITBUF_ROWS (replicate BITBUF_COLS 0),
        pulse_length = 0, pulse_count = 0, pulse_distance = 0,
        sample_counter = 0, start_c = 0,
        short_limit = sl, long_limit = ll, reset_limit = rl\<rparr>"

definition rubicson_init :: protocol_state where
  "rubicson_init = protocol_init 1744 3500 5000"

definition prologue_init :: protocol_state where
  "prologue_init = protocol_init 3500 7000 15000"

text \<open>
  A sequence of calls of the two operations that move the write cursor, run from left to
  right; the diagnostics are collected in order.
\<close>

datatype packet_call = Add_bit int | Next_bits_packet

fun packet_calls ::
  "protocol_state \<Rightarrow> packet_call list \<Rightarrow> (protocol_state \<times> stderr) option" where
  "packet_calls p [] = Some (p, [])"
| "packet_calls p (Add_bit b # cs) =
     (case demod_add_bit p b of
        None \<Rightarrow> None
      | Some (p', e) \<Rightarrow>
          (case packet_calls p' cs of
             None \<Rightarrow> None
           | Some (p'', e') \<Rightarrow> Some (p'', e @ e')))"
| "packet_calls p (Next_bits_packet # cs) =
     (case demod_next_bits_packet p of
        (p', e) \<Rightarrow>
          (case packet_calls p' cs of
             None \<Rightarrow> None
           | Some (p'', e') \<Rightarrow> Some (p'', e @ e')))"

section \<open>The envelope detector\<close>

text \<open>
  One complex sample: both bytes are recentred with \<open>^0x80\<close>, read as \<open>signed char\<close>,
  squared and added as \<open>int\<close>; the sum is stored in a \<open>uint16_t\<close>.
\<close>

definition envelope_sample :: "u8 \<Rightarrow> u8 \<Rightarrow> u16" where
  "envelope_sample r i =
     (let var_r = r XOR 0x80; var_i = i XOR 0x80
      in word_of_int (sint var_i * sint var_i + sint var_r * sint var_r))"

text \<open>
  The loop \<open>for (i=0 ; i<len/2 ; i+=stride)\<close> with \<open>stride = 1<<decimate\<close>; \<open>len\<close> is the
  length of \<open>buf\<close>. The result is the sequence \<open>sample_buffer[0..op)\<close> of the samples the
  loop writes. The C code writes them over the start of \<open>buf\<close>; \<open>envelope_in_place\<close> below
  is the loop on the bytes, and lemma \<open>envelope_in_place_correct\<close> shows that it leaves
  these samples.
\<close>

function envelope_loop :: "u8 list \<Rightarrow> nat \<Rightarrow> nat \<Rightarrow> u16 list" where
  "envelope_loop buf decimate i =
     (if i < length buf div 2
      then envelope_sample (buf ! (2 * i)) (buf ! (2 * i + 1))
             # envelope_loop buf decimate (i + 2 ^ decimate)
      else [])"
  by pat_completeness auto
termination
  by (relation "measure (\<lambda>(buf, decimate, i). length buf div 2 - i)")
    (auto intro!: diff_less_mono2)

declare envelope_loop.simps [simp del]

text \<open>
  \<open>1<<decimate\<close> is an \<open>int\<close> shift, defined for counts from 0 to 30; with these strides
  and a 32-bit \<open>len\<close> the unsigned index \<open>i\<close> cannot wrap around.
\<close>

definition envelope_detect :: "u8 list \<Rightarrow> int \<Rightarrow> u16 list option" where
  "envelope_detect buf decimate =
     (if 0 \<le> decimate \<and> decimate < 31 \<and> length buf < 2 ^ 32
      then Some (envelope_loop buf (nat decimate) 0)
      else None)"

text \<open>
  The same loop on the memory it works in: \<open>sample_buffer\<close> is \<open>buf\<close> seen as an array of
  \<open>uint16_t\<close>, so the store \<open>sample_buffer[op] = v\<close> overwrites the bytes \<open>2*op\<close> and
  \<open>2*op+1\<close> of \<open>buf\<close> (low byte first, as on a little-endian host), while the loop goes
  on reading bytes of \<open>buf\<close>. The result is the buffer and the final \<open>op\<close>.
\<close>

definition store_u16 :: "u8 list \<Rightarrow> nat \<Rightarrow> u16 \<Rightarrow> u8 list" where
  "store_u16 buf k v = buf[2 * k := ucast v, 2 * k + 1 := ucast (drop_bit 8 v)]"

definition load_u16 :: "u8 list \<Rightarrow> nat \<Rightarrow> u16" where
  "load_u16 buf k = push_bit 8 (ucast (buf ! (2 * k + 1))) OR ucast (buf ! (2 * k))"

function envelope_in_place :: "u8 list \<Rightarrow> nat \<Rightarrow> nat \<Rightarrow> nat \<Rightarrow> u8 list \<times> nat" where
  "envelope_in_place buf decimate i op =
     (if i < length buf div 2
      then envelope_in_place
             (store_u16 buf op (envelope_sample (buf ! (2 * i)) (buf ! (2 * i + 1))))
             decimate (i + 2 ^ decimate) (op + 1)
      else (buf, op))"
  by pat_completeness auto
termination
  by (relation "measure (\<lambda>(buf, decimate, i, op). length buf div 2 - i)")
    (auto simp: store_u16_def intro!: diff_less_mono2)

declare envelope_in_place.simps [simp del]

section \<open>The low-pass filter\<close>

definition FILTER_ORDER :: nat where "FILTER_ORDER = 1"
definition MAXIMAL_BUF_LENGTH :: nat where "MAXIMAL_BUF_LENGTH = 256 * 16384"
definition F_SCALE :: nat where "F_SCALE = 15"

text \<open>
  The coefficient arrays \<open>a\<close> and \<open>b\<close>. \<open>FIX(x)\<close> is \<open>(int)(x*32768)\<close>, which cuts the
  fraction off: \<open>0.96907 * 32768 = 31754.48...\<close> and \<open>0.015466 * 32768 = 506.78...\<close>.
\<close>

definition coeff_a :: "int list" where "coeff_a = [32768, 31754]"
definition coeff_b :: "int list" where "coeff_b = [506, 506]"

text \<open>
  One output sample,
  \<open>((a[1]*y_prev>>1) + (b[0]*x_cur>>1) + (b[1]*x_prev>>1)) >> F_SCALE-1\<close>,
  stored in an \<open>int16_t\<close>. \<open>y_prev\<close> is an \<open>int16_t\<close>, the inputs are \<open>uint16_t\<close>; all three
  are promoted to \<open>int\<close>, and no product or sum leaves the 32-bit range (the largest is
  below \<open>2^31\<close>), so the arithmetic is that of the integers. \<open>>>\<close> on a negative \<open>int\<close> is
  the arithmetic shift, which is \<open>drop_bit\<close> on integers. \<open>-\<close> binds tighter than \<open>>>\<close>:
  the last shift is by 14.
\<close>

definition lp_sample :: "i16 \<Rightarrow> u16 \<Rightarrow> u16 \<Rightarrow> i16" where
  "lp_sample y_prev x_cur x_prev =
     word_of_int
       (drop_bit (F_SCALE - 1)
          (drop_bit 1 (coeff_a ! 1 * sint y_prev)
           + drop_bit 1 (coeff_b ! 0 * uint x_cur)
           + drop_bit 1 (coeff_b ! 1 * uint x_prev)))"

text \<open>
  \<open>int16_t filter_buffer[MAXIMAL_BUF_LENGTH+FILTER_ORDER]\<close> is a store from indices to
  samples, and \<open>f_buf\<close> points at its element \<open>FILTER_ORDER\<close>: \<open>y_buf[i]\<close> is
  \<open>filter_buffer[i + 1]\<close> and \<open>y_buf[-1]\<close> is \<open>filter_buffer[0]\<close>.
\<close>

type_synonym filter_buffer = "nat \<Rightarrow> i16"

definition f_buf :: "filter_buffer \<Rightarrow> nat \<Rightarrow> i16 list" where
  "f_buf fb n = map (\<lambda>i. fb (i + FILTER_ORDER)) [0..<n]"

text \<open>The loop \<open>for (i=1 ; i<len ; i++)\<close>.\<close>

function lp_loop :: "u16 list \<Rightarrow> nat \<Rightarrow> nat \<Rightarrow> filter_buffer \<Rightarrow> filter_buffer" where
  "lp_loop x_buf len i fb =
     (if i < len
      then lp_loop x_buf len (i + 1)
             (fb(i + FILTER_ORDER :=
                   lp_sample (fb (i - 1 + FILTER_ORDER)) (x_buf ! i) (x_buf ! (i - 1))))
      else fb)"
  by pat_completeness auto
termination
  by (relation "measure (\<lambda>(x_buf, len, i, fb). len - i)") auto

declare lp_loop.simps [simp del]

text \<open>
  \<open>low_pass_filter(x_buf, y_buf, len)\<close> on the pair of the static \<open>lp_xmem[0]\<close> and the
  filter buffer. After the loop the two \<open>memcpy\<close> calls save
  \<open>x_buf[len-1-FILTER_ORDER]\<close> in \<open>lp_xmem\<close> and \<open>y_buf[len-1-FILTER_ORDER]\<close> in
  \<open>y_buf[-FILTER_ORDER]\<close>. The only call passes the start of the sample buffer as
  \<open>x_buf\<close>, so for \<open>len < 2\<close> the first \<open>memcpy\<close> reads outside that buffer (the unsigned
  index \<open>len-1-FILTER_ORDER\<close> is then not inside it); the model returns \<open>None\<close> there, and
  where \<open>len\<close> exceeds either buffer.
\<close>

definition low_pass_filter ::
  "u16 list \<Rightarrow> nat \<Rightarrow> u16 \<times> filter_buffer \<Rightarrow> (u16 \<times> filter_buffer) option" where
  "low_pass_filter x_buf len st =
     (case st of (lp_xmem, fb) \<Rightarrow>
        if 1 + FILTER_ORDER \<le> len \<and> len \<le> length x_buf \<and> len \<le> MAXIMAL_BUF_LENGTH then
          (let fb0 = fb(0 + FILTER_ORDER := lp_sample (fb 0) (x_buf ! 0) lp_xmem);
               fb1 = lp_loop x_buf len 1 fb0
           in Some (x_buf ! (len - 1 - FILTER_ORDER),
                    fb1(0 := fb1 (len - 1 - FILTER_ORDER + FILTER_ORDER))))
        else None)"

section \<open>The analyzer\<close>

text \<open>The static variables of \<open>pwm_analyze\<close>, as integers: the model does not follow the
  sample counter of the analyzer beyond \<open>2^31\<close> samples.\<close>

record analyzer =
  counter :: int
  print :: int
  print2 :: int
  pulses_found :: int
  pulse_start :: int
  pulse_end :: int
  pulse_avg :: int

definition analyzer_init :: analyzer where
  "analyzer_init =
     \<lparr>counter = 0, print = 1, print2 = 0, pulses_found = 0,
      pulse_start = 0, pulse_end = 0, pulse_avg = 0\<rparr>"

text \<open>One iteration of the loop of \<open>pwm_analyze\<close>; the division by \<open>pulses_found\<close> is
  undefined when that is 0.\<close>

definition pwm_analyze_sample ::
  "int \<Rightarrow> analyzer \<Rightarrow> i16 \<Rightarrow> (analyzer \<times> stderr) option" where
  "pwm_analyze_sample level_limit an s =
     (let (an1, e1) =
            (if sint s > level_limit \<and> print an \<noteq> 0 then
               (an\<lparr>pulses_found := pulses_found an + 1, pulse_start := counter an,
                    print := 0, print2 := 1\<rparr>,
                [''pulse_distance '' @ fmt_d (counter an - pulse_end an) @ ''\<newline>'',
                 ''pulse_start['' @ fmt_d (pulses_found an + 1) @ ''] found at sample ''
                   @ fmt_d (counter an) @ '', value = '' @ fmt_d (sint s) @ ''\<newline>''])
             else (an, []));
          an2 = an1\<lparr>counter := counter an1 + 1\<rparr>
      in if sint s < level_limit then
           (if print2 an2 \<noteq> 0 then
              (if pulses_found an2 = 0 then None
               else
                 (let an3 = an2\<lparr>pulse_avg := pulse_avg an2 + (counter an2 - pulse_start an2)\<rparr>
                  in Some (an3\<lparr>pulse_end := counter an3, print2 := 0, print := 1\<rparr>,
                       e1 @ [''pulse_end  ['' @ fmt_d (pulses_found an3)
                             @ ''] found at sample '' @ fmt_d (counter an3)
                             @ '', pulse lenght = '' @ fmt_d (counter an3 - pulse_start an3)
                             @ '', pulse avg lenght = ''
                             @ fmt_d (c_div (pulse_avg an3) (pulses_found an3))
                             @ ''\<newline>''])))
            else Some (an2\<lparr>print := 1\<rparr>, e1))
         else Some (an2, e1))"

fun pwm_analyze :: "int \<Rightarrow> analyzer \<Rightarrow> i16 list \<Rightarrow> (analyzer \<times> stderr) option" where
  "pwm_analyze level_limit an [] = Some (an, [])"
| "pwm_analyze level_limit an (s # buf) =
     (case pwm_analyze_sample level_limit an s of
        None \<Rightarrow> None
      | Some (an', e) \<Rightarrow>
          (case pwm_analyze level_limit an' buf of
             None \<Rightarrow> None
           | Some (an'', e') \<Rightarrow> Some (an'', e @ e')))"

section \<open>The block callback\<close>

text \<open>
  \<open>struct dm_state\<close>. \<open>file_sink\<close> is the field \<open>file\<close>: \<open>None\<close> for the null pointer, and
  otherwise the bytes written to the raw sink so far.
\<close>

record dm_state =
  file_sink :: "u8 list option"
  save_data :: int
  level_limit :: int
  decimation_level :: int
  filter_buffer :: filter_buffer
  analyze :: int
  rubicson :: protocol_state
  prologue :: protocol_state

text \<open>
  The state a call of \<open>rtlsdr_callback\<close> works on: the context \<open>ctx\<close>, the static
  variables \<open>do_exit\<close>, \<open>bytes_to_read\<close> and \<open>lp_xmem[0]\<close>, the statics of the analyzer, and
  the number of \<open>rtlsdr_cancel_async\<close> calls made on the device.
\<close>

record pipeline =
  demod :: dm_state
  do_exit :: int
  bytes_to_read :: u32
  lp_xmem :: u16
  analyzer_statics :: analyzer
  cancel_async_calls :: nat

text \<open>
  The context as \<open>main\<close> builds it before it reads the options: everything cleared, both
  protocol instances initialised, the default level and decimation. The options \<open>-l\<close>,
  \<open>-c\<close>, \<open>-a\<close>, \<open>-n\<close> and the file name then change single fields.
\<close>

definition dm_init :: dm_state where
  "dm_init =
     \<lparr>file_sink = None, save_data = 0, level_limit = 10000, decimation_level = 0,
      filter_buffer = (\<lambda>i. 0), analyze = 0,
      rubicson = rubicson_init, prologue = prologue_init\<rparr>"

definition pipeline_init :: pipeline where
  "pipeline_init =
     \<lparr>demod = dm_init, do_exit = 0, bytes_to_read = 0, lp_xmem = 0,
      analyzer_statics = analyzer_init, cancel_async_calls = 0\<rparr>"

text \<open>The bytes of the samples in \<open>f_buf\<close>, as \<open>fwrite\<close> reads them on a little-endian
  host.\<close>

definition sample_bytes :: "i16 list \<Rightarrow> u8 list" where
  "sample_bytes ss = concat (map (\<lambda>s. [ucast s, ucast (drop_bit 8 s)]) ss)"

text \<open>
  The consumers of the filtered block: \<open>pwm_analyze\<close> in analyzer mode, otherwise
  \<open>pwm_demod\<close> for the Prologue instance and then for the Rubicson instance, each over
  the same \<open>samples\<close>.
\<close>

definition callback_consume :: "pipeline \<Rightarrow> i16 list \<Rightarrow> (pipeline \<times> stderr) option" where
  "callback_consume w samples =
     (let dm = demod w in
      if analyze dm \<noteq> 0 then
        (case pwm_analyze (level_limit dm) (analyzer_statics w) samples of
           None \<Rightarrow> None
         | Some (an, e) \<Rightarrow> Some (w\<lparr>analyzer_statics := an\<rparr>, e))
      else
        (case pwm_demod (level_limit dm) (prologue dm) samples of
           None \<Rightarrow> None
         | Some (pr, e) \<Rightarrow>
            (case pwm_demod (level_limit dm) (rubicson dm) samples of
               None \<Rightarrow> None
             | Some (ru, e') \<Rightarrow>
                 Some (w\<lparr>demod := dm\<lparr>prologue := pr, rubicson := ru\<rparr>\<rparr>, e @ e'))))"

text \<open>
  \<open>fwrite(demod->f_buf, 1, n, demod->file)\<close> with \<open>n = len>>decimation_level\<close> bytes.
  \<open>fwrite_ret\<close> is the value the call returns, which the C library decides.
\<close>

definition callback_save :: "nat \<Rightarrow> nat \<Rightarrow> pipeline \<Rightarrow> pipeline \<times> stderr" where
  "callback_save n fwrite_ret w =
     (let dm = demod w in
      if save_data dm \<noteq> 0 then
        (let written =
               take fwrite_ret (take n (sample_bytes (f_buf (filter_buffer dm) ((n + 1) div 2))));
             w1 = w\<lparr>demod := dm\<lparr>file_sink := map_option (\<lambda>c. c @ written) (file_sink dm)\<rparr>\<rparr>
         in if fwrite_ret \<noteq> n
            then (w1\<lparr>cancel_async_calls := cancel_async_calls w1 + 1\<rparr>,
                  [''Short write, samples lost, exiting!\<newline>''])
            else (w1, []))
      else (w, []))"

text \<open>
  The body of \<open>rtlsdr_callback\<close> after the two guards, on the \<open>len\<close> bytes of \<open>buf\<close>. The
  filter is called with the length \<open>len>>(decimation_level+1)\<close>; the consumers are called
  with the length \<open>len/2\<close> and so read \<open>f_buf[0..len/2)\<close>.
\<close>

definition callback_block :: "u8 list \<Rightarrow> nat \<Rightarrow> pipeline \<Rightarrow> (pipeline \<times> stderr) option" where
  "callback_block buf fwrite_ret w =
     (let len = length buf; dm = demod w; d = decimation_level dm in
      case envelope_detect buf d of
        None \<Rightarrow> None
      | Some sbuf \<Rightarrow>
         (case low_pass_filter sbuf (drop_bit (nat (d + 1)) len) (lp_xmem w, filter_buffer dm) of
            None \<Rightarrow> None
          | Some (xm, fb) \<Rightarrow>
             (if len div 2 \<le> MAXIMAL_BUF_LENGTH then
                (case callback_consume (w\<lparr>demod := dm\<lparr>filter_buffer := fb\<rparr>, lp_xmem := xm\<rparr>)
                        (f_buf fb (len div 2)) of
                   None \<Rightarrow> None
                 | Some (w1, e) \<Rightarrow>
                    (case callback_save (drop_bit (nat d) len) fwrite_ret w1 of
                       (w2, e') \<Rightarrow>
                         Some (if bytes_to_read w2 > 0
                               then w2\<lparr>bytes_to_read := bytes_to_read w2 - of_nat len\<rparr>
                               else w2,
                               e @ e')))
              else None)))"

text \<open>
  \<open>rtlsdr_callback(buf, len, ctx)\<close>, with \<open>len\<close> the length of \<open>buf\<close>: nothing happens when
  data is to be saved without a sink or when \<open>do_exit\<close> is set; a block longer than the
  bytes still to read is cut to that length, and the device is asked to stop.
\<close>

definition rtlsdr_callback :: "u8 list \<Rightarrow> nat \<Rightarrow> pipeline \<Rightarrow> (pipeline \<times> stderr) option" where
  "rtlsdr_callback buf fwrite_ret w =
     (if file_sink (demod w) \<noteq> None \<or> save_data (demod w) = 0 then
        (if do_exit w \<noteq> 0 then Some (w, [])
         else if bytes_to_read w > 0 \<and> unat (bytes_to_read w) < length buf then
           callback_block (take (unat (bytes_to_read w)) buf) fwrite_ret
             (w\<lparr>do_exit := 1, cancel_async_calls := cancel_async_calls w + 1\<rparr>)
         else callback_block buf fwrite_ret w)
      else Some (w, []))"

section \<open>Predicates and inputs used in the statements\<close>

text \<open>The write cursor points into the \<open>12 \<times> 5\<close> byte array, at one of the 8 bits of a byte.\<close>

definition cursor_in_bounds :: "protocol_state \<Rightarrow> bool" where
  "cursor_in_bounds p \<longleftrightarrow>
     0 \<le> bits_row_idx p \<and> bits_row_idx p \<le> 11 \<and>
     0 \<le> bits_col_idx p \<and> bits_col_idx p \<le> 4 \<and>
     0 \<le> bits_bit_col_idx p \<and> bits_bit_col_idx p \<le> 7"

text \<open>The bit buffer is an array of 12 rows of 5 bytes.\<close>

definition packet_shape :: "protocol_state \<Rightarrow> bool" where
  "packet_shape p \<longleftrightarrow>
     length (bits_buffer p) = BITBUF_ROWS
     \<and> list_all (\<lambda>row. length row = BITBUF_COLS) (bits_buffer p)"

text \<open>
  The Rubicson instance in the gap after the first pulse of a packet, with the counter at
  \<open>n\<close>: the state \<open>pwm_demod\<close> reaches from \<open>rubicson_init\<close> on one sample above the level
  followed by \<open>n\<close> samples below it (lemma \<open>rubicson_gap_reached\<close>).
\<close>

definition rubicson_gap :: "int \<Rightarrow> protocol_state" where
  "rubicson_gap n =
     \<lparr>bits_col_idx = 0, bits_row_idx = 0, bits_bit_col_idx = 7,
      bits_buffer = replicate BITBUF_ROWS (replicate BITBUF_COLS 0),
      pulse_length = 0, pulse_count = 0, pulse_distance = 1,
      sample_counter = n, start_c = 1,
      short_limit = 1744, long_limit = 3500, reset_limit = 5000\<rparr>"

text \<open>
  Packets for the decoder scenarios: an initialised instance whose row 1, or row 0, holds
  the given five bytes.
\<close>

definition prologue_scenario :: protocol_state where
  "prologue_scenario =
     prologue_init\<lparr>bits_buffer :=
       (bits_buffer prologue_init)[1 := [0x95, 0xA1, 0x00, 0xEA, 0xCC]]\<rparr>"

definition rubicson_scenario :: protocol_state where
  "rubicson_scenario =
     rubicson_init\<lparr>bits_buffer :=
       (bits_buffer rubicson_init)[0 := [0xA0, 0x07, 0xB0, 0x00, 0x00]]\<rparr>"

definition channel_bits_11 :: protocol_state where
  "channel_bits_11 =
     prologue_init\<lparr>bits_buffer :=
       (bits_buffer prologue_init)[1 := [0x95, 0xA3, 0x00, 0xEA, 0xCC]]\<rparr>"

text \<open>The Prologue instance in a gap, with the counter at \<open>n\<close>.\<close>

definition prologue_gap :: "int \<Rightarrow> protocol_state" where
  "prologue_gap n = prologue_init\<lparr>pulse_distance := 1, sample_counter := n, start_c := 1\<rparr>"

text \<open>
  A received packet for the statements about the end of a packet: row 0 holds the bytes
  of the Rubicson scenario, row 1 those of the Prologue scenario, and the write cursor
  stands at the start of row 2. \<open>rubicson_packet_end n\<close> and \<open>prologue_packet_end n\<close> are the
  two instances in the gap after that packet, with the counter at \<open>n\<close>.
\<close>

definition scenario_packet :: "u8 list list" where
  "scenario_packet =
     [0xA0, 0x07, 0xB0, 0x00, 0x00] # [0x95, 0xA1, 0x00, 0xEA, 0xCC]
       # replicate 10 (replicate 5 0)"

definition rubicson_packet_end :: "int \<Rightarrow> protocol_state" where
  "rubicson_packet_end n = (rubicson_gap n)\<lparr>bits_row_idx := 2, bits_buffer := scenario_packet\<rparr>"

definition prologue_packet_end :: "int \<Rightarrow> protocol_state" where
  "prologue_packet_end n = (prologue_gap n)\<lparr>bits_row_idx := 2, bits_buffer := scenario_packet\<rparr>"

text \<open>
  What a call of \<open>low_pass_filter\<close> with length \<open>n\<close> leaves behind: the saved input
  \<open>lp_xmem[0]\<close>, the saved output \<open>y_buf[-1]\<close>, and the output block \<open>y_buf[0..n)\<close>.
\<close>

definition filter_result ::
  "nat \<Rightarrow> (u16 \<times> filter_buffer) option \<Rightarrow> (u16 \<times> i16 \<times> i16 list) option" where
  "filter_result n r = map_option (\<lambda>(xm, fb). (xm, fb 0, f_buf fb n)) r"

text \<open>The demodulator flags of a protocol instance: \<open>pulse_count\<close>, \<open>pulse_distance\<close> and
  \<open>sample_counter\<close>.\<close>

definition demod_flags :: "protocol_state \<Rightarrow> int \<times> int \<times> int" where
  "demod_flags p = (pulse_count p, pulse_distance p, sample_counter p)"

text \<open>The pipeline as \<open>main\<close> starts it for the options \<open>-c 1 -l 100\<close> without an output file.\<close>

definition pipeline_c1_l100 :: pipeline where
  "pipeline_c1_l100 =
     pipeline_init\<lparr>demod := dm_init\<lparr>decimation_level := 1, level_limit := 100\<rparr>\<rparr>"

section \<open>The envelope detector: range of the samples\<close>

lemma sint8_square_le: "sint (x :: u8) * sint x \<le> 16384"
proof -
  have "- 128 \<le> sint x" "sint x \<le> 127"
    using sint_ge [of x] sint_lt [of x] by simp_all
  then have "\<bar>sint x\<bar> \<le> 128" by simp
  then have "\<bar>sint x\<bar> * \<bar>sint x\<bar> \<le> 128 * 128"
    by (intro mult_mono) simp_all
  then show ?thesis by simp
qed

lemma envelope_sample_value:
  "uint (envelope_sample r i) =
     sint (i XOR 0x80) * sint (i XOR 0x80) + sint (r XOR 0x80) * sint (r XOR 0x80)"
proof -
  let ?v = "sint (i XOR 0x80) * sint (i XOR 0x80) + sint (r XOR 0x80) * sint (r XOR 0x80)"
  have "0 \<le> ?v" by simp
  moreover have "?v \<le> 32768"
    using sint8_square_le [of "i XOR 0x80"] sint8_square_le [of "r XOR 0x80"] by simp
  ultimately have small: "take_bit 16 ?v = ?v"
    by (intro take_bit_int_eq_self) simp_all
  have "uint (word_of_int ?v :: u16) = take_bit LENGTH(16) ?v"
    by (rule uint_word_of_int_eq)
  also have "\<dots> = ?v" using small by simp
  finally show ?thesis by (simp only: envelope_sample_def Let_def)
qed

lemma envelope_sample_le: "uint (envelope_sample r i) \<le> 32768"
  using sint8_square_le [of "i XOR 0x80"] sint8_square_le [of "r XOR 0x80"]
  by (simp add: envelope_sample_value)

lemma envelope_loop_le: "v \<in> set (envelope_loop buf d i) \<Longrightarrow> uint v \<le> 32768"
proof (induction buf d i rule: envelope_loop.induct)
  case (1 buf d i)
  show ?case
  proof (cases "i < length buf div 2")
    case True
    with "1.prems" have
      "v = envelope_sample (buf ! (2 * i)) (buf ! (2 * i + 1))
       \<or> v \<in> set (envelope_loop buf d (i + 2 ^ d))"
      by (subst (asm) envelope_loop.simps) simp
    with "1.IH" [OF True] envelope_sample_le show ?thesis by blast
  next
    case False
    with "1.prems" show ?thesis by (subst (asm) envelope_loop.simps) simp
  qed
qed

text \<open>The loop on the bytes leaves, in \<open>sample_buffer[0..op)\<close>, the samples of
  \<open>envelope_loop\<close>: every byte is read before a store reaches it, because \<open>op \<le> i\<close>.\<close>

lemma length_store_u16 [simp]: "length (store_u16 buf k v) = length buf"
  by (simp add: store_u16_def)

lemma join_bytes: "push_bit 8 (ucast (ucast (drop_bit 8 v) :: u8)) OR ucast (ucast v :: u8) = (v :: u16)"
  by (rule bit_word_eqI) (auto simp: bit_simps)

lemma load_store_same:
  "2 * k + 1 < length buf \<Longrightarrow> load_u16 (store_u16 buf k v) k = v"
  by (simp add: load_u16_def store_u16_def join_bytes)

lemma store_other:
  "j \<noteq> 2 * k \<Longrightarrow> j \<noteq> 2 * k + 1 \<Longrightarrow> store_u16 buf k v ! j = buf ! j"
  by (simp add: store_u16_def)

lemma load_store_other:
  "k' \<noteq> k \<Longrightarrow> load_u16 (store_u16 buf k v) k' = load_u16 buf k'"
  unfolding load_u16_def by (subst (1 2) store_other) auto

lemma envelope_in_place_samples:
  assumes "envelope_in_place b d i op = (b', op')"
    and "length b = length orig" and "\<forall>j\<ge>2 * op. b ! j = orig ! j" and "op \<le> i"
  shows "op \<le> op' \<and> length b' = length orig
         \<and> map (load_u16 b') [op..<op'] = envelope_loop orig d i
         \<and> (\<forall>k<op. load_u16 b' k = load_u16 b k)"
  using assms
proof (induction b d i op rule: envelope_in_place.induct)
  case (1 buf decimate i op)
  show ?case
  proof (cases "i < length buf div 2")
    case True
    let ?v = "envelope_sample (buf ! (2 * i)) (buf ! (2 * i + 1))"
    let ?b1 = "store_u16 buf op ?v"
    from True "1.prems"(1) have run: "envelope_in_place ?b1 decimate (i + 2 ^ decimate) (op + 1) = (b', op')"
      by (subst (asm) envelope_in_place.simps) simp
    have len: "length ?b1 = length orig" using "1.prems"(2) by simp
    have same: "\<forall>j\<ge>2 * (op + 1). ?b1 ! j = orig ! j"
      using "1.prems"(3) by (auto simp: store_other)
    have "(1::nat) \<le> 2 ^ decimate" by simp
    with "1.prems"(4) have le: "op + 1 \<le> i + 2 ^ decimate"
      by (rule add_mono)
    from "1.IH" [OF True run len same le] have
      ih: "op + 1 \<le> op'" "length b' = length orig"
        "map (load_u16 b') [op + 1..<op'] = envelope_loop orig decimate (i + 2 ^ decimate)"
        "\<forall>k<op + 1. load_u16 b' k = load_u16 ?b1 k"
      by simp_all
    from "1.prems"(3,4) have v: "?v = envelope_sample (orig ! (2 * i)) (orig ! (2 * i + 1))"
      by simp
    from True "1.prems"(4) have "2 * op + 1 < length buf" by linarith
    then have "load_u16 ?b1 op = ?v" by (rule load_store_same)
    with ih(4) have at_op: "load_u16 b' op = ?v" by simp
    from ih(1) have "[op..<op'] = op # [op + 1..<op']" by (simp add: upt_conv_Cons)
    then have "map (load_u16 b') [op..<op'] = ?v # envelope_loop orig decimate (i + 2 ^ decimate)"
      using at_op ih(3) by simp
    also have "\<dots> = envelope_loop orig decimate i"
      using True "1.prems"(2) v by (subst (2) envelope_loop.simps) simp
    finally have samples: "map (load_u16 b') [op..<op'] = envelope_loop orig decimate i" .
    have "\<forall>k<op. load_u16 b' k = load_u16 buf k"
      using ih(4) by (auto simp: load_store_other)
    with ih(1,2) samples show ?thesis by simp
  next
    case False
    with "1.prems" show ?thesis
      by (subst (asm) envelope_in_place.simps) (simp add: envelope_loop.simps)
  qed
qed

lemma envelope_in_place_correct:
  assumes "envelope_in_place buf d 0 0 = (b', op')"
  shows "map (load_u16 b') [0..<op'] = envelope_loop buf d 0"
  using envelope_in_place_samples [OF assms, of buf] by simp

text \<open>
  C3, as the claim states it, fails: the input pair \<open>(0x00, 0x00)\<close> is recentred to
  \<open>(0x80, 0x80)\<close>, which is \<open>-128\<close> as \<open>signed char\<close>, and the envelope is
  \<open>2 * 128^2 = 32768\<close>, above \<open>32258\<close>.
\<close>

theorem envelope_exceeds_32258:
  "envelope_detect [0x00, 0x00] 0 = Some [32768] \<and> \<not> uint (32768 :: u16) \<le> 32258"
  by (simp add: envelope_detect_def envelope_sample_def envelope_loop.simps)

text \<open>
  C3, amended: every envelope value that \<open>envelope_detect\<close> produces, for every input
  buffer and every decimation, lies in the range \<open>[0, 32768]\<close>.
\<close>

theorem envelope_range:
  "envelope_detect buf decimate = Some sample_buffer \<Longrightarrow> v \<in> set sample_buffer
     \<Longrightarrow> 0 \<le> uint v \<and> uint v \<le> 32768"
  by (auto simp: envelope_detect_def envelope_loop_le split: if_splits)

theorem envelope_range_witness:
  "envelope_detect [0xFF, 0xFF, 0x00, 0x00] 0 = Some [32258, 32768]
   \<and> (32768 :: u16) \<in> set [32258, 32768]
   \<and> 0 \<le> uint (32768 :: u16) \<and> uint (32768 :: u16) \<le> 32768"
proof -
  have e: "envelope_detect [0xFF, 0xFF, 0x00, 0x00] 0 = Some [32258, 32768]"
    by (simp add: envelope_detect_def envelope_sample_def envelope_loop.simps)
  have m: "(32768 :: u16) \<in> set [32258, 32768]" by simp
  from envelope_range [OF e m] e m show ?thesis by blast
qed

section \<open>The bit packet: the write cursor\<close>

lemma cursor_reset: "cursor_in_bounds (demod_reset_bits_packet p)"
  by (simp add: cursor_in_bounds_def demod_reset_bits_packet_def)

lemma bits_store_defined:
  "cursor_in_bounds p \<Longrightarrow>
     \<exists>q. bits_store p b = Some q \<and> bits_row_idx q = bits_row_idx p
       \<and> bits_col_idx q = bits_col_idx p \<and> bits_bit_col_idx q = bits_bit_col_idx p"
  by (simp add: cursor_in_bounds_def bits_store_def Let_def BITBUF_ROWS_def BITBUF_COLS_def)

lemma add_bit_cursor:
  assumes "cursor_in_bounds p"
  shows "\<exists>q e. demod_add_bit p b = Some (q, e) \<and> cursor_in_bounds q
           \<and> bits_row_idx q = bits_row_idx p
           \<and> (if bits_col_idx p = 4 \<and> bits_bit_col_idx p = 0
               then e = [''p->bits_col_idx>4!\<newline>''] \<and> bits_col_idx q = 4
               else e = [])"
proof -
  from bits_store_defined [OF assms, of b] obtain p1 where
    p1: "bits_store p b = Some p1" "bits_row_idx p1 = bits_row_idx p"
        "bits_col_idx p1 = bits_col_idx p" "bits_bit_col_idx p1 = bits_bit_col_idx p"
    by blast
  with assms show ?thesis
    by (auto simp: demod_add_bit_def cursor_in_bounds_def Let_def)
qed

lemma next_packet_cursor:
  assumes "cursor_in_bounds p"
  shows "\<exists>q e. demod_next_bits_packet p = (q, e) \<and> cursor_in_bounds q
           \<and> (if bits_row_idx p = 11
               then e = [''p->bits_row_idx>11!\<newline>''] \<and> bits_row_idx q = 11
               else e = [] \<and> bits_row_idx q = bits_row_idx p + 1)"
  using assms by (auto simp: demod_next_bits_packet_def cursor_in_bounds_def Let_def)

lemma packet_calls_cursor:
  "cursor_in_bounds p \<Longrightarrow> \<exists>q e. packet_calls p cs = Some (q, e) \<and> cursor_in_bounds q"
proof (induction cs arbitrary: p)
  case Nil
  then show ?case by simp
next
  case (Cons c cs)
  show ?case
  proof (cases c)
    case (Add_bit b)
    from add_bit_cursor [OF Cons.prems, of b] obtain p' e where
      s: "demod_add_bit p b = Some (p', e)" "cursor_in_bounds p'" by blast
    from Cons.IH [OF s(2)] obtain q e' where
      "packet_calls p' cs = Some (q, e')" "cursor_in_bounds q" by blast
    with s Add_bit show ?thesis by simp
  next
    case Next_bits_packet
    from next_packet_cursor [OF Cons.prems] obtain p' e where
      s: "demod_next_bits_packet p = (p', e)" "cursor_in_bounds p'" by blast
    from Cons.IH [OF s(2)] obtain q e' where
      "packet_calls p' cs = Some (q, e')" "cursor_in_bounds q" by blast
    with s Next_bits_packet show ?thesis by simp
  qed
qed

lemma shape_reset: "packet_shape (demod_reset_bits_packet p)"
  by (simp add: packet_shape_def demod_reset_bits_packet_def list_all_iff)

lemma list_all_update:
  "list_all P xs \<Longrightarrow> P x \<Longrightarrow> list_all P (xs[i := x])"
  using set_update_subset_insert [of xs i x] by (auto simp: list_all_iff)

lemma bits_store_shape:
  assumes "bits_store p b = Some q" "packet_shape p"
  shows "packet_shape q"
proof -
  let ?r = "nat (bits_row_idx p)"
  from assms(1) have r: "?r < BITBUF_ROWS"
    by (auto simp: bits_store_def Let_def split: if_splits)
  with assms(2) have "length (bits_buffer p ! ?r) = BITBUF_COLS"
    by (simp add: packet_shape_def list_all_length)
  with assms show ?thesis
    by (auto simp: bits_store_def Let_def packet_shape_def intro!: list_all_update
        split: if_splits)
qed

lemma add_bit_shape:
  "demod_add_bit p b = Some (q, e) \<Longrightarrow> packet_shape p \<Longrightarrow> packet_shape q"
  by (auto simp: demod_add_bit_def Let_def packet_shape_def dest!: bits_store_shape
      split: option.splits if_splits)

lemma next_packet_shape:
  "demod_next_bits_packet p = (q, e) \<Longrightarrow> packet_shape p \<Longrightarrow> packet_shape q"
  by (auto simp: demod_next_bits_packet_def Let_def packet_shape_def split: if_splits)

lemma packet_calls_shape:
  "packet_calls p cs = Some (q, e) \<Longrightarrow> packet_shape p \<Longrightarrow> packet_shape q"
proof (induction cs arbitrary: p e)
  case Nil
  then show ?case by simp
next
  case (Cons c cs)
  show ?case
  proof (cases c)
    case (Add_bit b)
    with Cons.prems obtain p' e1 e2 where
      "demod_add_bit p b = Some (p', e1)" "packet_calls p' cs = Some (q, e2)"
      by (auto split: option.splits)
    with Cons.prems(2) Cons.IH show ?thesis by (blast dest: add_bit_shape)
  next
    case Next_bits_packet
    with Cons.prems obtain p' e1 e2 where
      "demod_next_bits_packet p = (p', e1)" "packet_calls p' cs = Some (q, e2)"
      by (auto split: option.splits prod.splits)
    with Cons.prems(2) Cons.IH show ?thesis by (blast dest: next_packet_shape)
  qed
qed

text \<open>
  C7: from a reset packet, every sequence of \<open>demod_add_bit\<close> and
  \<open>demod_next_bits_packet\<close> calls runs without a store outside the \<open>12 \<times> 5\<close> byte array
  (the model returns \<open>None\<close> on such a store), and leaves the row index in \<open>0..11\<close>, the
  byte index in \<open>0..4\<close> and the bit index in \<open>0..7\<close>; the buffer is still an array of 12
  rows of 5 bytes. In the state reached, a further
  \<open>demod_add_bit\<close> stays in the same row; it prints the diagnostic and keeps the byte
  index at 4 exactly when it fills the last bit of byte 4, so later appends go to that
  byte again. A further \<open>demod_next_bits_packet\<close> prints the diagnostic and stays in
  row 11 exactly when the cursor is in row 11, and otherwise moves to the next row.
\<close>

theorem write_cursor_saturates:
  "\<exists>q e. packet_calls (demod_reset_bits_packet p) cs = Some (q, e)
     \<and> 0 \<le> bits_row_idx q \<and> bits_row_idx q \<le> 11
     \<and> 0 \<le> bits_col_idx q \<and> bits_col_idx q \<le> 4
     \<and> 0 \<le> bits_bit_col_idx q \<and> bits_bit_col_idx q \<le> 7
     \<and> length (bits_buffer q) = 12 \<and> list_all (\<lambda>row. length row = 5) (bits_buffer q)
     \<and> (\<forall>b. \<exists>q' e'. demod_add_bit q b = Some (q', e')
            \<and> bits_row_idx q' = bits_row_idx q
            \<and> (if bits_col_idx q = 4 \<and> bits_bit_col_idx q = 0
                then e' = [''p->bits_col_idx>4!\<newline>''] \<and> bits_col_idx q' = 4
                else e' = []))
     \<and> (\<exists>q' e'. demod_next_bits_packet q = (q', e')
            \<and> (if bits_row_idx q = 11
                then e' = [''p->bits_row_idx>11!\<newline>''] \<and> bits_row_idx q' = 11
                else e' = [] \<and> bits_row_idx q' = bits_row_idx q + 1))"
proof -
  from packet_calls_cursor [OF cursor_reset, of p cs] obtain q e where
    run: "packet_calls (demod_reset_bits_packet p) cs = Some (q, e)" and ok: "cursor_in_bounds q"
    by blast
  from packet_calls_shape [OF run shape_reset]
  have shape: "length (bits_buffer q) = 12" "list_all (\<lambda>row. length row = 5) (bits_buffer q)"
    by (simp_all add: packet_shape_def BITBUF_ROWS_def BITBUF_COLS_def)
  have add: "\<exists>q' e'. demod_add_bit q b = Some (q', e')
            \<and> bits_row_idx q' = bits_row_idx q
            \<and> (if bits_col_idx q = 4 \<and> bits_bit_col_idx q = 0
                then e' = [''p->bits_col_idx>4!\<newline>''] \<and> bits_col_idx q' = 4
                else e' = [])" for b
    using add_bit_cursor [OF ok, of b] by blast
  have nxt: "\<exists>q' e'. demod_next_bits_packet q = (q', e')
            \<and> (if bits_row_idx q = 11
                then e' = [''p->bits_row_idx>11!\<newline>''] \<and> bits_row_idx q' = 11
                else e' = [] \<and> bits_row_idx q' = bits_row_idx q + 1)"
    using next_packet_cursor [OF ok] by blast
  from run ok shape add nxt show ?thesis
    unfolding cursor_in_bounds_def by blast
qed

theorem write_cursor_saturates_witness:
  "(\<exists>q e. packet_calls (demod_reset_bits_packet rubicson_init) (replicate 39 (Add_bit 1))
            = Some (q, e)
      \<and> bits_row_idx q = 0 \<and> bits_col_idx q = 4 \<and> bits_bit_col_idx q = 0
      \<and> (\<exists>q' e'. demod_add_bit q 1 = Some (q', e')
             \<and> bits_row_idx q' = 0 \<and> e' = [''p->bits_col_idx>4!\<newline>'']
             \<and> bits_col_idx q' = 4))
   \<and> (\<exists>q e. packet_calls (demod_reset_bits_packet rubicson_init) (replicate 11 Next_bits_packet)
            = Some (q, e)
      \<and> bits_row_idx q = 11
      \<and> (\<exists>q' e'. demod_next_bits_packet q = (q', e')
             \<and> e' = [''p->bits_row_idx>11!\<newline>''] \<and> bits_row_idx q' = 11))"
proof -
  let ?cursor = "\<lambda>(q, e). (bits_row_idx q, bits_col_idx q, bits_bit_col_idx q)"
  have a: "map_option ?cursor
             (packet_calls (demod_reset_bits_packet rubicson_init) (replicate 39 (Add_bit 1)))
           = Some (0, 4, 0)"
    by code_simp
  have b: "map_option ?cursor
             (packet_calls (demod_reset_bits_packet rubicson_init) (replicate 11 Next_bits_packet))
           = Some (11, 0, 7)"
    by code_simp
  from a write_cursor_saturates [of rubicson_init "replicate 39 (Add_bit 1)"]
  have first: "\<exists>q e. packet_calls (demod_reset_bits_packet rubicson_init) (replicate 39 (Add_bit 1))
            = Some (q, e)
      \<and> bits_row_idx q = 0 \<and> bits_col_idx q = 4 \<and> bits_bit_col_idx q = 0
      \<and> (\<exists>q' e'. demod_add_bit q 1 = Some (q', e')
             \<and> bits_row_idx q' = 0 \<and> e' = [''p->bits_col_idx>4!\<newline>'']
             \<and> bits_col_idx q' = 4)"
    by (elim exE conjE) (auto dest!: spec [where x = 1])
  from b write_cursor_saturates [of rubicson_init "replicate 11 Next_bits_packet"]
  have second: "\<exists>q e. packet_calls (demod_reset_bits_packet rubicson_init)
              (replicate 11 Next_bits_packet) = Some (q, e)
      \<and> bits_row_idx q = 11
      \<and> (\<exists>q' e'. demod_next_bits_packet q = (q', e')
             \<and> e' = [''p->bits_row_idx>11!\<newline>''] \<and> bits_row_idx q' = 11)"
    by (elim exE conjE) auto
  from first second show ?thesis by blast
qed

section \<open>The demodulator\<close>

lemma add_bit_keeps:
  "demod_add_bit p b = Some (q, e) \<Longrightarrow>
     sample_counter q = sample_counter p \<and> reset_limit q = reset_limit p
     \<and> short_limit q = short_limit p \<and> long_limit q = long_limit p
     \<and> pulse_count q = pulse_count p \<and> start_c q = start_c p
     \<and> pulse_distance q = pulse_distance p \<and> pulse_length q = pulse_length p"
  by (auto simp: demod_add_bit_def bits_store_def Let_def split: option.splits if_splits)

lemma next_packet_keeps:
  "demod_next_bits_packet p = (q, e) \<Longrightarrow>
     sample_counter q = sample_counter p \<and> reset_limit q = reset_limit p
     \<and> short_limit q = short_limit p \<and> long_limit q = long_limit p
     \<and> pulse_count q = pulse_count p \<and> start_c q = start_c p
     \<and> pulse_distance q = pulse_distance p \<and> pulse_length q = pulse_length p
     \<and> bits_buffer q = bits_buffer p"
  by (auto simp: demod_next_bits_packet_def Let_def split: if_splits)

lemma print_cong:
  assumes "bits_buffer q = bits_buffer p"
  shows "demod_print_bits_packet q = demod_print_bits_packet p"
proof -
  have b: "bb q = bb p" using assms by (intro ext) (simp add: bb_def)
  then have "dump_row q = dump_row p" by (intro ext) (simp add: dump_row_def)
  with b show ?thesis
    by (simp add: demod_print_bits_packet_def dump_rows_def prologue_lines_def rubicson_lines_def
        prologue_temp_def rubicson_temp_def prologue_channel_def prologue_rid_def)
qed

text \<open>A sample above the level in the gap after a pulse: the counter is incremented and the
  gap is classified.\<close>

lemma pulse_rising:
  assumes "pulse_distance p \<noteq> 0" "level < sint s"
  shows "pwm_demod_pulse level p s =
    (let p3 = p\<lparr>pulse_count := 1, start_c := 1, sample_counter := sample_counter p + 1\<rparr> in
       if sample_counter p3 < short_limit p3 then
         (case demod_add_bit p3 0 of
            None \<Rightarrow> None
          | Some (q, e) \<Rightarrow> Some (q\<lparr>pulse_distance := 0\<rparr>, e))
       else if sample_counter p3 < long_limit p3 then
         (case demod_add_bit p3 1 of
            None \<Rightarrow> None
          | Some (q, e) \<Rightarrow> Some (q\<lparr>pulse_distance := 0\<rparr>, e))
       else
         (case demod_next_bits_packet p3 of
            (q, e) \<Rightarrow>
              Some (q\<lparr>pulse_count := 0, sample_counter := 0, pulse_distance := 0\<rparr>, e)))"
  using assms by (simp add: pwm_demod_pulse_def Let_def)

text \<open>A sample that is not above the level, outside a pulse: only the counter moves.\<close>

lemma pulse_silent:
  assumes "pulse_count p = 0" "\<not> level < sint s"
  shows "pwm_demod_pulse level p s =
     Some (if start_c p \<noteq> 0 then p\<lparr>sample_counter := sample_counter p + 1\<rparr> else p, [])"
  using assms by (simp add: pwm_demod_pulse_def Let_def)

lemma sample_silent:
  assumes "pulse_count p = 0" "\<not> level < sint s" "start_c p \<noteq> 0"
    "sample_counter p + 1 \<le> reset_limit p"
  shows "pwm_demod_sample level p s = Some (p\<lparr>sample_counter := sample_counter p + 1\<rparr>, [])"
  using assms by (simp add: pwm_demod_sample_def pulse_silent pwm_demod_reset_def)

lemma pwm_demod_silence:
  assumes "pulse_count p = 0" "start_c p \<noteq> 0"
    and "\<forall>s \<in> set buf. \<not> level < sint s"
    and "sample_counter p + int (length buf) \<le> reset_limit p"
  shows "pwm_demod level p buf
           = Some (p\<lparr>sample_counter := sample_counter p + int (length buf)\<rparr>, [])"
  using assms
proof (induction buf arbitrary: p)
  case Nil
  then show ?case by simp
next
  case (Cons s buf)
  let ?p' = "p\<lparr>sample_counter := sample_counter p + 1\<rparr>"
  from Cons.prems have step: "pwm_demod_sample level p s = Some (?p', [])"
    by (intro sample_silent) simp_all
  from Cons.prems have "pwm_demod level ?p' buf
      = Some (?p'\<lparr>sample_counter := sample_counter ?p' + int (length buf)\<rparr>, [])"
    by (intro Cons.IH) simp_all
  with step show ?case by (simp add: add.assoc)
qed

lemma rubicson_init_eq:
  "rubicson_init =
     \<lparr>bits_col_idx = 0, bits_row_idx = 0, bits_bit_col_idx = 7,
      bits_buffer = replicate BITBUF_ROWS (replicate BITBUF_COLS 0),
      pulse_length = 0, pulse_count = 0, pulse_distance = 0,
      sample_counter = 0, start_c = 0,
      short_limit = 1744, long_limit = 3500, reset_limit = 5000\<rparr>"
  by (simp add: rubicson_init_def protocol_init_def demod_reset_bits_packet_def)

text \<open>
  How the counter measures a gap: after the first pulse sample, \<open>n\<close> samples below the
  level leave the Rubicson instance in the gap with \<open>sample_counter = n\<close>; the sample that
  ends the gap is counted before the gap is classified.
\<close>

lemma rubicson_gap_reached:
  assumes "level < sint hi" "sint lo < level" "n \<le> 4999"
  shows "pwm_demod level rubicson_init (hi # replicate (Suc n) lo)
           = Some (rubicson_gap (int n + 1), [])"
proof -
  let ?a = "rubicson_init\<lparr>pulse_count := 1, start_c := 1, sample_counter := 1\<rparr>"
  have s1: "pwm_demod_sample level rubicson_init hi = Some (?a, [])"
    using assms(1)
    by (simp add: pwm_demod_sample_def pwm_demod_pulse_def pwm_demod_reset_def rubicson_init_eq)
  have s2: "pwm_demod_sample level ?a lo = Some (rubicson_gap 1, [])"
    using assms(2)
    by (simp add: pwm_demod_sample_def pwm_demod_pulse_def pwm_demod_reset_def rubicson_init_eq
        rubicson_gap_def)
  have "pwm_demod level (rubicson_gap 1) (replicate n lo)
          = Some ((rubicson_gap 1)\<lparr>sample_counter := sample_counter (rubicson_gap 1)
               + int (length (replicate n lo))\<rparr>, [])"
    using assms(2,3) by (intro pwm_demod_silence) (simp_all add: rubicson_gap_def)
  then have s3: "pwm_demod level (rubicson_gap 1) (replicate n lo)
          = Some (rubicson_gap (int n + 1), [])"
    by (simp add: rubicson_gap_def)
  from s1 s2 s3 show ?thesis by simp
qed

lemma pulse_keeps_limits:
  "pwm_demod_pulse level p s = Some (q, e) \<Longrightarrow>
     reset_limit q = reset_limit p \<and> short_limit q = short_limit p \<and> long_limit q = long_limit p"
  by (auto simp: pwm_demod_pulse_def Let_def split: if_splits option.splits prod.splits
      dest!: add_bit_keeps next_packet_keeps)












text \<open>
  C8, as the claim states it, fails. The Rubicson instance, run from its initial state
  with the default level 10000 on one sample above the level and 5000 samples below it,
  is in the gap with \<open>start_c = 1\<close>, \<open>pulse_distance = 1\<close> and the counter at 5000. A next
  sample equal to the level brings the counter to 5001: the packet ends, and \<open>start_c\<close>
  and \<open>pulse_distance\<close> are cleared.
\<close>

theorem level_equal_sample_resets:
  "pwm_demod 10000 rubicson_init (20000 # replicate 5000 0) = Some (rubicson_gap 5000, [])
   \<and> sint (10000 :: i16) = 10000
   \<and> start_c (rubicson_gap 5000) = 1 \<and> pulse_distance (rubicson_gap 5000) = 1
   \<and> map_option (start_c \<circ> fst) (pwm_demod_sample 10000 (rubicson_gap 5000) 10000) = Some 0
   \<and> map_option (pulse_distance \<circ> fst) (pwm_demod_sample 10000 (rubicson_gap 5000) 10000)
       = Some 0"
proof -
  have "pwm_demod 10000 rubicson_init (20000 # replicate (Suc 4999) 0)
          = Some (rubicson_gap (int 4999 + 1), [])"
    by (rule rubicson_gap_reached) simp_all
  then have reach: "pwm_demod 10000 rubicson_init (20000 # replicate 5000 0)
          = Some (rubicson_gap 5000, [])"
    by simp
  have "pwm_demod_sample 10000 (rubicson_gap 5000) 10000
          = Some (demod_reset_bits_packet
                    ((rubicson_gap 5000)\<lparr>sample_counter := 5001, start_c := 0,
                        sample_counter := 0, pulse_distance := 0\<rparr>),
                  demod_print_bits_packet
                    ((rubicson_gap 5000)\<lparr>sample_counter := 5001, start_c := 0,
                        sample_counter := 0, pulse_distance := 0\<rparr>))"
    by (simp add: pwm_demod_sample_def pwm_demod_pulse_def pwm_demod_reset_def rubicson_gap_def
        Let_def)
  then have "map_option (start_c \<circ> fst) (pwm_demod_sample 10000 (rubicson_gap 5000) 10000)
               = Some 0"
    "map_option (pulse_distance \<circ> fst) (pwm_demod_sample 10000 (rubicson_gap 5000) 10000)
               = Some 0"
    by (simp_all add: demod_reset_bits_packet_def)
  with reach show ?thesis by (simp add: rubicson_gap_def)
qed

text \<open>
  C8, amended: a sample equal to \<open>level_limit\<close> neither enters nor leaves a pulse. It
  leaves \<open>pulse_count\<close> unchanged in every case. It counts as a sample: when the counter,
  incremented if \<open>start_c\<close> is set, does not exceed \<open>reset_limit\<close>, nothing but the counter
  changes, so \<open>pulse_distance\<close> and \<open>start_c\<close> are unchanged, and nothing is printed; when
  it exceeds \<open>reset_limit\<close>, the packet is printed and reset: the output is that of the print
  routine on the packet, and in the state \<open>start_c\<close>, \<open>sample_counter\<close> and
  \<open>pulse_distance\<close> are cleared, the bit buffer is zeroed and the write cursor is back at
  row 0, byte 0, bit 7, everything else being unchanged.
\<close>

theorem level_equal_sample:
  assumes "sint s = level"
  shows "\<exists>p' e. pwm_demod_sample level p s = Some (p', e)
           \<and> pulse_count p' = pulse_count p
           \<and> (let n = (if start_c p \<noteq> 0 then sample_counter p + 1 else sample_counter p) in
                if n \<le> reset_limit p
                then p' = p\<lparr>sample_counter := n\<rparr> \<and> e = []
                     \<and> pulse_distance p' = pulse_distance p \<and> start_c p' = start_c p
                else p' = p\<lparr>start_c := 0, sample_counter := 0, pulse_distance := 0,
               bits_buffer := replicate 12 (replicate 5 0), bits_col_idx := 0,
               bits_bit_col_idx := 7, bits_row_idx := 0\<rparr>
                     \<and> e = demod_print_bits_packet p)"
proof -
  let ?n = "if start_c p \<noteq> 0 then sample_counter p + 1 else sample_counter p"
  have pulse: "pwm_demod_pulse level p s = Some (p\<lparr>sample_counter := ?n\<rparr>, [])"
    using assms by (simp add: pwm_demod_pulse_def)
  have pr: "demod_print_bits_packet
              (p\<lparr>sample_counter := ?n, start_c := 0, sample_counter := 0, pulse_distance := 0\<rparr>)
            = demod_print_bits_packet p"
    by (rule print_cong) simp
  show ?thesis
  proof (cases "?n \<le> reset_limit p")
    case True
    with pulse show ?thesis
      by (simp add: pwm_demod_sample_def pwm_demod_reset_def Let_def)
  next
    case False
    with pulse pr show ?thesis
      by (simp add: pwm_demod_sample_def pwm_demod_reset_def Let_def demod_reset_bits_packet_def
          BITBUF_ROWS_def BITBUF_COLS_def)
  qed
qed

theorem level_equal_sample_witness:
  "sint (10000 :: i16) = 10000
   \<and> pwm_demod_sample 10000 (rubicson_packet_end 4999) 10000
       = Some (rubicson_packet_end 5000, [])
   \<and> bits_buffer (rubicson_packet_end 5000) = scenario_packet
   \<and> bits_row_idx (rubicson_packet_end 5000) = 2
   \<and> start_c (rubicson_packet_end 5000) = 1 \<and> pulse_distance (rubicson_packet_end 5000) = 1
   \<and> pwm_demod_sample 10000 (rubicson_packet_end 5000) 10000
       = Some (rubicson_init, demod_print_bits_packet (rubicson_packet_end 5000))
   \<and> rubicson_init =
        \<lparr>bits_col_idx = 0, bits_row_idx = 0, bits_bit_col_idx = 7,
            bits_buffer = replicate 12 (replicate 5 0),
            pulse_length = 0, pulse_count = 0, pulse_distance = 0,
            sample_counter = 0, start_c = 0,
            short_limit = 1744, long_limit = 3500, reset_limit = 5000\<rparr>
   \<and> drop 554 (demod_print_bits_packet (rubicson_packet_end 5000)) =
        [''95 a1 00 ea cc\<newline>'',
          ''button        = 0\<newline>'', ''first reading = 1\<newline>'',
          ''temp          = 1.4\<newline>'', ''channel       = 2\<newline>'',
          ''id            = 9\<newline>'', ''rid           = 90\<newline>'',
          ''hrid          = 5a\<newline>'',
          ''rid = a0\<newline>'', ''temp = 196.8\<newline>'', ''\<newline>'']"
proof -
  have s: "sint (10000 :: i16) = 10000" by simp
  have g: "(rubicson_packet_end 4999)\<lparr>sample_counter := 5000\<rparr> = rubicson_packet_end 5000"
    by (simp add: rubicson_packet_end_def rubicson_gap_def)
  have r: "(rubicson_packet_end 5000)\<lparr>start_c := 0, sample_counter := 0, pulse_distance := 0,
               bits_buffer := replicate 12 (replicate 5 0), bits_col_idx := 0,
               bits_bit_col_idx := 7, bits_row_idx := 0\<rparr> = rubicson_init"
    by (simp add: rubicson_packet_end_def rubicson_gap_def rubicson_init_eq BITBUF_ROWS_def
        BITBUF_COLS_def)
  have st: "start_c (rubicson_packet_end n) = 1" "sample_counter (rubicson_packet_end n) = n"
    "reset_limit (rubicson_packet_end n) = 5000" "pulse_count (rubicson_packet_end n) = 0"
    "pulse_distance (rubicson_packet_end n) = 1"
    "bits_buffer (rubicson_packet_end n) = scenario_packet"
    "bits_row_idx (rubicson_packet_end n) = 2" for n
    by (simp_all add: rubicson_packet_end_def rubicson_gap_def)
  from level_equal_sample [OF s, of "rubicson_packet_end 4999"] g
  have a: "pwm_demod_sample 10000 (rubicson_packet_end 4999) 10000
             = Some (rubicson_packet_end 5000, [])"
    by (auto simp: st)
  from level_equal_sample [OF s, of "rubicson_packet_end 5000"] r
  have b: "pwm_demod_sample 10000 (rubicson_packet_end 5000) 10000
             = Some (rubicson_init, demod_print_bits_packet (rubicson_packet_end 5000))"
    by (auto simp: st)
  have i: "rubicson_init =
        \<lparr>bits_col_idx = 0, bits_row_idx = 0, bits_bit_col_idx = 7,
            bits_buffer = replicate 12 (replicate 5 0),
            pulse_length = 0, pulse_count = 0, pulse_distance = 0,
            sample_counter = 0, start_c = 0,
            short_limit = 1744, long_limit = 3500, reset_limit = 5000\<rparr>"
    by (simp add: rubicson_init_eq BITBUF_ROWS_def BITBUF_COLS_def)
  have d: "drop 554 (demod_print_bits_packet (rubicson_packet_end 5000)) =
        [''95 a1 00 ea cc\<newline>'',
          ''button        = 0\<newline>'', ''first reading = 1\<newline>'',
          ''temp          = 1.4\<newline>'', ''channel       = 2\<newline>'',
          ''id            = 9\<newline>'', ''rid           = 90\<newline>'',
          ''hrid          = 5a\<newline>'',
          ''rid = a0\<newline>'', ''temp = 196.8\<newline>'', ''\<newline>'']"
    by code_simp
  from s a st(6,7,1,5) b i d show ?thesis by (intro conjI)
qed

section \<open>The frame decoder: fields and scenarios\<close>

lemma prologue_temp_16:
  "prologue_temp p =
     signed_drop_bit 4 (push_bit 8 (ucast (bb p 1 2)) OR (ucast (bb p 1 3) AND 0xF0))"
  unfolding prologue_temp_def Let_def
  by (rule arg_cong [where f = "signed_drop_bit 4"], rule bit_word_eqI) (auto simp: bit_simps)

lemma rubicson_temp_16:
  "rubicson_temp p =
     signed_drop_bit 4 (push_bit 12 (ucast (bb p 0 1)) OR push_bit 4 (ucast (bb p 0 2)))"
  unfolding rubicson_temp_def Let_def
  by (rule arg_cong [where f = "signed_drop_bit 4"], rule bit_word_eqI) (auto simp: bit_simps)

lemma print_ends_with_decodings:
  "\<exists>pre. demod_print_bits_packet p = pre @ prologue_lines p @ rubicson_lines p @ [''\<newline>'']"
proof -
  have "demod_print_bits_packet p =
          ([''\<newline>''] @ dump_rows p @ [''\<newline>'']
           @ [fmt_02x (uint (bb p 1 0)) @ '' '' @ fmt_02x (uint (bb p 1 1)) @ '' ''
              @ fmt_02x (uint (bb p 1 2)) @ '' '' @ fmt_02x (uint (bb p 1 3)) @ '' ''
              @ fmt_02x (uint (bb p 1 4)) @ ''\<newline>''])
          @ prologue_lines p @ rubicson_lines p @ [''\<newline>'']"
    by (simp add: demod_print_bits_packet_def)
  then show ?thesis by blast
qed

lemma prologue_lines_cong:
  "bits_buffer r ! 1 = bits_buffer q ! 1 \<Longrightarrow> prologue_lines r = prologue_lines q"
  by (simp add: prologue_lines_def prologue_temp_def prologue_channel_def prologue_rid_def bb_def)

lemma rubicson_lines_cong:
  "bits_buffer r ! 0 = bits_buffer q ! 0 \<Longrightarrow> rubicson_lines r = rubicson_lines q"
  by (simp add: rubicson_lines_def rubicson_temp_def bb_def)

text \<open>
  C5, as the claim states it, fails on the temperature. With row 1 equal to
  \<open>{0x95, 0xA1, 0x00, 0xEA, 0xCC}\<close> the temperature bytes are \<open>0x00\<close> and \<open>0xEA\<close>, so the
  16-bit value is \<open>0x00E0\<close> and its shift by 4 is 14: the decoder prints the temperature
  line with \<open>1.4\<close>, and no line with \<open>23.4\<close>, in either spacing of the two temperature formats.
\<close>

theorem prologue_scenario_not_23_4:
  "bits_buffer prologue_scenario ! 1 = [0x95, 0xA1, 0x00, 0xEA, 0xCC]
   \<and> ''temp          = 1.4\<newline>'' \<in> set (demod_print_bits_packet prologue_scenario)
   \<and> ''temp          = 23.4\<newline>'' \<notin> set (demod_print_bits_packet prologue_scenario)
   \<and> ''temp = 23.4\<newline>'' \<notin> set (demod_print_bits_packet prologue_scenario)"
  by code_simp

text \<open>
  C5, amended: for a packet whose row 1 holds the bytes \<open>{0x95, 0xA1, 0x00, 0xEA, 0xCC}\<close> the
  Prologue lines of the print routine are \<open>button = 0\<close>, \<open>first reading = 1\<close>,
  \<open>temp = 1.4\<close>, \<open>channel = 2\<close>, \<open>id = 9\<close>, \<open>rid = 90\<close>, \<open>hrid = 5a\<close>; the temperature is
  \<open>(byte2 << 8) | (byte3 & 0xF0)\<close> as a signed 16-bit value shifted right arithmetically
  by 4, here 14 tenths of a degree.
\<close>

theorem prologue_scenario_decode:
  assumes "bits_buffer p ! 1 = [0x95, 0xA1, 0x00, 0xEA, 0xCC]"
  shows "prologue_lines p =
           [''button        = 0\<newline>'', ''first reading = 1\<newline>'',
            ''temp          = 1.4\<newline>'', ''channel       = 2\<newline>'',
            ''id            = 9\<newline>'', ''rid           = 90\<newline>'',
            ''hrid          = 5a\<newline>'']
         \<and> (\<exists>pre. demod_print_bits_packet p
                     = pre @ prologue_lines p @ rubicson_lines p @ [''\<newline>''])
         \<and> prologue_temp p =
             signed_drop_bit 4 (push_bit 8 (ucast (bb p 1 2)) OR (ucast (bb p 1 3) AND 0xF0))
         \<and> sint (prologue_temp p) = 14"
proof -
  have b: "bb p 1 0 = 0x95" "bb p 1 1 = 0xA1" "bb p 1 2 = 0x00" "bb p 1 3 = 0xEA"
    using assms by (simp_all add: bb_def)
  have t: "prologue_temp p = 14"
    by (simp only: prologue_temp_def b Let_def) simp
  have "prologue_lines p =
           [''button        = 0\<newline>'', ''first reading = 1\<newline>'',
            ''temp          = 1.4\<newline>'', ''channel       = 2\<newline>'',
            ''id            = 9\<newline>'', ''rid           = 90\<newline>'',
            ''hrid          = 5a\<newline>'']"
    by (simp only: prologue_lines_def t b prologue_channel_def prologue_rid_def)
      (simp add: fmt_temp_def fmt_d_def fmt_02x_def fmt_x_def c_div_def c_mod_def)
  moreover have "sint (prologue_temp p) = 14" by (simp add: t)
  ultimately show ?thesis
    using print_ends_with_decodings [of p] prologue_temp_16 [of p] by blast
qed

theorem prologue_scenario_decode_witness:
  "bits_buffer prologue_scenario ! 1 = [0x95, 0xA1, 0x00, 0xEA, 0xCC]
   \<and> prologue_lines prologue_scenario =
           [''button        = 0\<newline>'', ''first reading = 1\<newline>'',
            ''temp          = 1.4\<newline>'', ''channel       = 2\<newline>'',
            ''id            = 9\<newline>'', ''rid           = 90\<newline>'',
            ''hrid          = 5a\<newline>'']
   \<and> sint (prologue_temp prologue_scenario) = 14"
proof -
  have r: "bits_buffer prologue_scenario ! 1 = [0x95, 0xA1, 0x00, 0xEA, 0xCC]"
    by (simp add: prologue_scenario_def prologue_init_def protocol_init_def
        demod_reset_bits_packet_def BITBUF_ROWS_def)
  from prologue_scenario_decode [OF r] r show ?thesis by blast
qed

text \<open>
  C6, as the claim states it, fails. With row 0 equal to \<open>{0xA0, 0x07, 0xB0, 0x00, 0x00}\<close>
  the 16-bit value is \<open>0x7B00\<close> and its shift by 4 is \<open>0x7B0 = 1968\<close>, not 123: the decoder
  prints \<open>temp = 196.8\<close>, and no line with \<open>12.3\<close>, in either spacing.
\<close>

theorem rubicson_scenario_not_12_3:
  "bits_buffer rubicson_scenario ! 0 = [0xA0, 0x07, 0xB0, 0x00, 0x00]
   \<and> sint (rubicson_temp rubicson_scenario) = 1968
   \<and> ''temp = 196.8\<newline>'' \<in> set (demod_print_bits_packet rubicson_scenario)
   \<and> ''temp = 12.3\<newline>'' \<notin> set (demod_print_bits_packet rubicson_scenario)
   \<and> ''temp          = 12.3\<newline>'' \<notin> set (demod_print_bits_packet rubicson_scenario)"
  by code_simp

text \<open>
  C6, amended: for a packet whose row 0 holds the bytes \<open>{0xA0, 0x07, 0xB0, 0x00, 0x00}\<close> the
  Rubicson decoder takes the temperature from bits 12 to 23 of the row, that is
  \<open>(byte1 << 12) | (byte2 << 4)\<close> as a 16-bit value shifted right arithmetically by 4,
  obtains the raw value 1968 and prints \<open>temp = 196.8\<close> (after \<open>rid = a0\<close>).
\<close>

theorem rubicson_scenario_decode:
  assumes "bits_buffer p ! 0 = [0xA0, 0x07, 0xB0, 0x00, 0x00]"
  shows "rubicson_lines p = [''rid = a0\<newline>'', ''temp = 196.8\<newline>'']
         \<and> (\<exists>pre. demod_print_bits_packet p
                     = pre @ prologue_lines p @ rubicson_lines p @ [''\<newline>''])
         \<and> rubicson_temp p =
             signed_drop_bit 4 (push_bit 12 (ucast (bb p 0 1)) OR push_bit 4 (ucast (bb p 0 2)))
         \<and> sint (rubicson_temp p) = 1968"
proof -
  have b: "bb p 0 0 = 0xA0" "bb p 0 1 = 0x07" "bb p 0 2 = 0xB0"
    using assms by (simp_all add: bb_def)
  have t: "rubicson_temp p = 1968"
    by (simp only: rubicson_temp_def b Let_def) simp
  have "rubicson_lines p = [''rid = a0\<newline>'', ''temp = 196.8\<newline>'']"
    by (simp only: rubicson_lines_def t b)
      (simp add: fmt_temp_def fmt_d_def fmt_x_def c_div_def c_mod_def)
  moreover have "sint (rubicson_temp p) = 1968" by (simp add: t)
  ultimately show ?thesis
    using print_ends_with_decodings [of p] rubicson_temp_16 [of p] by blast
qed

theorem rubicson_scenario_decode_witness:
  "bits_buffer rubicson_scenario ! 0 = [0xA0, 0x07, 0xB0, 0x00, 0x00]
   \<and> rubicson_lines rubicson_scenario = [''rid = a0\<newline>'', ''temp = 196.8\<newline>'']
   \<and> sint (rubicson_temp rubicson_scenario) = 1968"
proof -
  have r: "bits_buffer rubicson_scenario ! 0 = [0xA0, 0x07, 0xB0, 0x00, 0x00]"
    by (simp add: rubicson_scenario_def rubicson_init_def protocol_init_def
        demod_reset_bits_packet_def BITBUF_ROWS_def)
  from rubicson_scenario_decode [OF r] r show ?thesis by blast
qed

text \<open>
  C9, as the claim states it, fails on the range: when the low two bits of row-1 byte 1
  are both set (here byte 1 is \<open>0xA3\<close>), the printed channel is 4.
\<close>

theorem prologue_channel_4:
  "bits_buffer channel_bits_11 ! 1 ! 1 = 0xA3
   \<and> prologue_channel channel_bits_11 = 4
   \<and> ''channel       = 4\<newline>'' \<in> set (demod_print_bits_packet channel_bits_11)
   \<and> \<not> prologue_channel channel_bits_11 \<le> 3"
  by code_simp

text \<open>
  C9, amended: for every packet the channel line of the print routine shows the low two
  bits of row-1 byte 1 plus one, and this value lies in the range \<open>1..4\<close>.
\<close>

theorem prologue_channel_range:
  "prologue_lines p ! 3 = ''channel       = '' @ fmt_d (prologue_channel p) @ ''\<newline>''
   \<and> prologue_channel p = uint (take_bit 2 (bits_buffer p ! 1 ! 1)) + 1
   \<and> 1 \<le> prologue_channel p \<and> prologue_channel p \<le> 4"
proof -
  have m: "w AND 0x03 = take_bit 2 w" for w :: u8
    by (simp add: take_bit_eq_mask mask_eq_exp_minus_1)
  have "uint (take_bit 2 w) < 2 ^ 2" for w :: u8
    by (simp only: unsigned_take_bit_eq) (rule take_bit_int_less_exp)
  then have "uint (take_bit 2 w) \<le> 3" for w :: u8
    using zle_add1_eq_le [of "uint (take_bit 2 w)" 3] by simp
  then show ?thesis
    by (simp add: prologue_lines_def prologue_channel_def bb_def m)
qed

theorem prologue_channel_range_witness:
  "prologue_lines prologue_scenario ! 3 = ''channel       = 2\<newline>''
   \<and> prologue_channel prologue_scenario = 2
   \<and> 1 \<le> prologue_channel prologue_scenario \<and> prologue_channel prologue_scenario \<le> 4"
proof -
  have c: "prologue_channel prologue_scenario = 2" by code_simp
  have f: "fmt_d 2 = ''2''" by (simp add: fmt_d_def)
  from prologue_channel_range [of prologue_scenario] c f show ?thesis by simp
qed

subsection \<open>The fields as arithmetic on the bytes\<close>

lemma or_low_int:
  fixes m d :: int
  assumes "0 \<le> d" "d < 2 ^ n"
  shows "push_bit n m OR d = m * 2 ^ n + d"
proof -
  from assms have t: "take_bit n d = d" by (simp add: take_bit_int_eq_self)
  have "push_bit n m OR d = concat_bit n d m"
    by (simp add: concat_bit_def t or.commute)
  also have "\<dots> = take_bit n d + push_bit n m" by (rule concat_bit_eq)
  finally show ?thesis by (simp add: t push_bit_eq_mult)
qed

lemma uint8_lt: "uint (a :: u8) < 256"
  using uint_lt2p [of a] by simp

lemma byte_low: "uint ((a::u8) AND 0x0F) = uint a mod 16"
proof -
  have "(0x0F :: u8) = mask 4" by (simp add: mask_eq_exp_minus_1)
  then have "a AND 0x0F = take_bit 4 a" by (simp only: take_bit_eq_mask)
  then have "uint (a AND 0x0F) = take_bit 4 (uint a)" by (simp only: unsigned_take_bit_eq)
  then show ?thesis by (simp only: take_bit_eq_mod) simp
qed

lemma byte_low2: "uint ((a::u8) AND 0x03) = uint a mod 4"
proof -
  have "(0x03 :: u8) = mask 2" by (simp add: mask_eq_exp_minus_1)
  then have "a AND 0x03 = take_bit 2 a" by (simp only: take_bit_eq_mask)
  then have "uint (a AND 0x03) = take_bit 2 (uint a)" by (simp only: unsigned_take_bit_eq)
  then show ?thesis by (simp only: take_bit_eq_mod) simp
qed

lemma byte_drop4: "uint (drop_bit 4 (a::u8)) = uint a div 16"
proof -
  have "uint (drop_bit 4 a) = drop_bit 4 (take_bit LENGTH(8) (uint a))"
    by (rule unsigned_drop_bit_eq)
  also have "take_bit LENGTH(8) (uint a) = uint a"
    using uint8_lt [of a] by (intro take_bit_int_eq_self) simp_all
  finally show ?thesis by (simp add: drop_bit_eq_div)
qed

lemma byte_high_word: "(a::u8) AND 0xF0 = push_bit 4 (drop_bit 4 a)"
proof -
  have m: "(0xF0 :: u8) = push_bit 4 (mask 4)" by (simp add: mask_eq_exp_minus_1)
  show ?thesis unfolding m
    by (rule bit_word_eqI) (auto simp: bit_simps dest: bit_imp_le_length)
qed

lemma byte_bit: "((a::u8) AND 2 ^ n \<noteq> 0) = ((uint a div 2 ^ n) mod 2 = 1)"
proof -
  have "(a AND 2 ^ n \<noteq> 0) = bit a n" by (simp add: and_exp_eq_0_iff_not_bit)
  also have "\<dots> = bit (uint a) n"
    using bit_imp_le_length [of a n] by (auto simp: bit_uint_iff)
  also have "\<dots> = odd (uint a div 2 ^ n)" by (simp add: bit_iff_odd)
  finally show ?thesis by (simp add: odd_iff_mod_2_eq_one)
qed


lemma byte_div16: "0 \<le> uint (a :: u8) div 16 \<and> uint a div 16 < 16"
  using uint8_lt [of a] uint_ge_0 [of a] by linarith

lemma prologue_rid_arith:
  "prologue_rid p = (uint (bb p 1 0) mod 16) * 16 + uint (bb p 1 1) div 16"
proof -
  let ?a0 = "bb p 1 0" and ?a1 = "bb p 1 1"
  have lo: "uint (push_bit 4 (ucast (?a0 AND 0x0F) :: u32)) = push_bit 4 (uint ?a0 mod 16)"
  proof -
    have "uint (push_bit 4 (ucast (?a0 AND 0x0F) :: u32))
            = take_bit LENGTH(32) (push_bit 4 (uint (ucast (?a0 AND 0x0F) :: u32)))"
      by (rule unsigned_push_bit_eq)
    also have "uint (ucast (?a0 AND 0x0F) :: u32) = uint (?a0 AND 0x0F)"
      by (rule uint_up_ucast) (simp add: is_up)
    also have "\<dots> = uint ?a0 mod 16" by (rule byte_low)
    finally have "uint (push_bit 4 (ucast (?a0 AND 0x0F) :: u32))
            = take_bit 32 (push_bit 4 (uint ?a0 mod 16))" by simp
    moreover have "take_bit 32 (push_bit 4 (uint ?a0 mod 16)) = push_bit 4 (uint ?a0 mod 16)"
      by (intro take_bit_int_eq_self) (simp_all add: push_bit_eq_mult)
    ultimately show ?thesis by simp
  qed
  have hi: "uint (drop_bit 4 (ucast (?a1 AND 0xF0) :: u32)) = uint ?a1 div 16"
  proof -
    have "drop_bit 4 (ucast (?a1 AND 0xF0) :: u32) = ucast (drop_bit 4 ?a1)"
      unfolding byte_high_word
      by (rule bit_word_eqI) (auto simp: bit_simps dest: bit_imp_le_length)
    then have "uint (drop_bit 4 (ucast (?a1 AND 0xF0) :: u32)) = uint (drop_bit 4 ?a1)"
      by (simp add: uint_up_ucast is_up)
    then show ?thesis by (simp only: byte_drop4)
  qed
  have d: "0 \<le> uint ?a1 div 16" "uint ?a1 div 16 < 2 ^ 4"
    using byte_div16 [of ?a1] by simp_all
  have "prologue_rid p = push_bit 4 (uint ?a0 mod 16) OR uint ?a1 div 16"
    unfolding prologue_rid_def by (simp only: uint_or lo hi)
  also have "\<dots> = (uint ?a0 mod 16) * 2 ^ 4 + uint ?a1 div 16"
    by (rule or_low_int [OF d])
  finally show ?thesis by simp
qed

lemma sint16_of_uint:
  "sint (w :: 16 word) = (if uint w < 32768 then uint w else uint w - 65536)"
proof -
  have b: "0 \<le> uint w" "uint w < 65536" using uint_lt2p [of w] by simp_all
  have "sint w = signed_take_bit 15 (uint w)" by (simp add: sint_uint)
  also have "\<dots> = take_bit 16 (uint w + 2 ^ 15) - 2 ^ 15"
    by (simp add: signed_take_bit_eq_take_bit_shift)
  also have "\<dots> = (uint w + 32768) mod 65536 - 32768" by (simp add: take_bit_eq_mod)
  also have "\<dots> = (if uint w < 32768 then uint w else uint w - 65536)"
  proof (cases "uint w < 32768")
    case True
    with b have "(uint w + 32768) mod 65536 = uint w + 32768"
      by (intro mod_pos_pos_trivial) simp_all
    with True show ?thesis by simp
  next
    case False
    have "uint w + 32768 = uint w - 32768 + 65536" by linarith
    then have "(uint w + 32768) mod 65536 = (uint w - 32768 + 65536) mod 65536"
      by (rule arg_cong)
    also have "\<dots> = (uint w - 32768) mod 65536" by (rule mod_add_self2)
    also from b False have "\<dots> = uint w - 32768"
      by (intro mod_pos_pos_trivial) simp_all
    finally show ?thesis using False by simp
  qed
  finally show ?thesis .
qed

lemma signed_nibbles_div16:
  fixes A D :: int
  assumes "0 \<le> A" "A < 256" "0 \<le> D" "D < 16"
  shows "(if A * 256 + D * 16 < 32768 then A * 256 + D * 16 else A * 256 + D * 16 - 65536) div 16
         = (if A < 128 then A * 16 + D else A * 16 + D - 4096)"
proof -
  have e: "A * 256 + D * 16 = 16 * (A * 16 + D)"
    "A * 256 + D * 16 - 65536 = 16 * (A * 16 + D - 4096)" by simp_all
  from assms have c: "(A * 256 + D * 16 < 32768) = (A < 128)" by linarith
  show ?thesis unfolding c unfolding e by simp
qed

lemma prologue_temp_arith:
  "sint (prologue_temp p) =
     (let u = uint (bb p 1 2) * 16 + uint (bb p 1 3) div 16
      in if uint (bb p 1 2) < 128 then u else u - 4096)"
proof -
  let ?a2 = "bb p 1 2" and ?a3 = "bb p 1 3"
  let ?w = "push_bit 8 (ucast ?a2) OR (ucast ?a3 AND 0xF0) :: 16 word"
  have hi: "uint (push_bit 8 (ucast ?a2) :: 16 word) = push_bit 8 (uint ?a2)"
  proof -
    have "uint (push_bit 8 (ucast ?a2) :: 16 word)
            = take_bit LENGTH(16) (push_bit 8 (uint (ucast ?a2 :: 16 word)))"
      by (rule unsigned_push_bit_eq)
    also have "uint (ucast ?a2 :: 16 word) = uint ?a2"
      by (rule uint_up_ucast) (simp add: is_up)
    finally have "uint (push_bit 8 (ucast ?a2) :: 16 word) = take_bit 16 (push_bit 8 (uint ?a2))"
      by simp
    moreover have "take_bit 16 (push_bit 8 (uint ?a2)) = push_bit 8 (uint ?a2)"
      using uint8_lt [of ?a2] by (intro take_bit_int_eq_self) (simp_all add: push_bit_eq_mult)
    ultimately show ?thesis by simp
  qed
  have lo: "uint (ucast ?a3 AND 0xF0 :: 16 word) = (uint ?a3 div 16) * 16"
  proof -
    have "(ucast ?a3 AND 0xF0 :: 16 word) = ucast (?a3 AND 0xF0)"
      by (rule bit_word_eqI) (auto simp: bit_simps dest: bit_imp_le_length)
    then have "uint (ucast ?a3 AND 0xF0 :: 16 word) = uint (?a3 AND 0xF0)"
      by (simp add: uint_up_ucast is_up)
    also have "\<dots> = uint (push_bit 4 (drop_bit 4 ?a3))" by (simp only: byte_high_word)
    also have "\<dots> = take_bit LENGTH(8) (push_bit 4 (uint (drop_bit 4 ?a3)))"
      by (rule unsigned_push_bit_eq)
    also have "\<dots> = take_bit 8 (push_bit 4 (uint ?a3 div 16))" by (simp only: byte_drop4) simp
    also have "\<dots> = push_bit 4 (uint ?a3 div 16)"
      using byte_div16 [of ?a3] by (intro take_bit_int_eq_self) (simp_all add: push_bit_eq_mult)
    finally show ?thesis by (simp add: push_bit_eq_mult)
  qed
  have d: "0 \<le> (uint ?a3 div 16) * 16" "(uint ?a3 div 16) * 16 < 2 ^ 8"
    using byte_div16 [of ?a3] by simp_all
  have "uint ?w = push_bit 8 (uint ?a2) OR (uint ?a3 div 16) * 16"
    by (simp only: uint_or hi lo)
  also have "\<dots> = uint ?a2 * 2 ^ 8 + (uint ?a3 div 16) * 16" by (rule or_low_int [OF d])
  finally have u: "uint ?w = uint ?a2 * 256 + (uint ?a3 div 16) * 16" by simp
  have "sint (prologue_temp p) = drop_bit 4 (sint ?w)"
    by (simp only: prologue_temp_16 sint_signed_drop_bit_eq)
  also have "\<dots> = sint ?w div 16" by (simp add: drop_bit_eq_div)
  finally have "sint (prologue_temp p) = sint ?w div 16" .
  also have "\<dots> = (if uint ?w < 32768 then uint ?w else uint ?w - 65536) div 16"
    by (simp only: sint16_of_uint)
  also have "\<dots> = (if uint ?a2 < 128 then uint ?a2 * 16 + uint ?a3 div 16
                     else uint ?a2 * 16 + uint ?a3 div 16 - 4096)"
    unfolding u using uint8_lt [of ?a2] byte_div16 [of ?a3]
    by (intro signed_nibbles_div16) simp_all
  finally show ?thesis by (simp only: Let_def)
qed

lemma byte_id: "uint (drop_bit 4 ((a::u8) AND 0xF0)) = uint a div 16"
proof -
  have "drop_bit 4 (a AND 0xF0) = drop_bit 4 a"
    unfolding byte_high_word
    by (rule bit_word_eqI) (auto simp: bit_simps dest: bit_imp_le_length)
  then show ?thesis by (simp only: byte_drop4)
qed

lemma byte_flag4: "(if (a::u8) AND 0x04 \<noteq> 0 then 1 else 0 :: int) = uint a div 4 mod 2"
proof -
  have "(a AND 2 ^ 2 \<noteq> 0) = ((uint a div 2 ^ 2) mod 2 = 1)" by (rule byte_bit)
  then have "(a AND 0x04 \<noteq> 0) = (uint a div 4 mod 2 = 1)" by simp
  then show ?thesis by (simp add: mod2_eq_if)
qed

lemma byte_flag8: "(if (a::u8) AND 0x08 \<noteq> 0 then 0 else 1 :: int) = 1 - uint a div 8 mod 2"
proof -
  have "(a AND 2 ^ 3 \<noteq> 0) = ((uint a div 2 ^ 3) mod 2 = 1)" by (rule byte_bit)
  then have "(a AND 0x08 \<noteq> 0) = (uint a div 8 mod 2 = 1)" by simp
  then show ?thesis by (simp add: mod2_eq_if)
qed

lemma abs_c_div_10: "\<bar>c_div t 10\<bar> = \<bar>t\<bar> div 10"
proof (cases "t = 0")
  case True
  then show ?thesis by (simp add: c_div_def)
next
  case False
  have "0 \<le> \<bar>t\<bar> div 10" by simp
  with False show ?thesis by (simp add: c_div_def abs_mult abs_sgn_eq)
qed

lemma abs_c_mod_10: "\<bar>c_mod t 10\<bar> = \<bar>t\<bar> mod 10"
proof (cases "0 \<le> t")
  case True
  then have "c_div t 10 = t div 10"
    by (cases "t = 0") (simp_all add: c_div_def sgn_if)
  with True show ?thesis
    by (simp add: c_mod_def minus_mult_div_eq_mod)
next
  case False
  then have "c_div t 10 = - (\<bar>t\<bar> div 10)" by (simp add: c_div_def sgn_if)
  then have "c_mod t 10 = - (\<bar>t\<bar> - 10 * (\<bar>t\<bar> div 10))" using False by (simp add: c_mod_def)
  also have "\<bar>t\<bar> - 10 * (\<bar>t\<bar> div 10) = \<bar>t\<bar> mod 10" by (simp add: minus_mult_div_eq_mod)
  finally show ?thesis by simp
qed

lemma fmt_temp_arith:
  "fmt_temp t =
     (if sint t < 0 then ''-'' else '''') @ fmt_d (\<bar>sint t\<bar> div 10) @ ''.''
       @ fmt_d (\<bar>sint t\<bar> mod 10)"
  by (simp only: fmt_temp_def abs_c_div_10 abs_c_mod_10)

lemma signed_nibbles_div16':
  fixes M C :: int
  assumes "0 \<le> M" "M < 16" "0 \<le> C" "C < 256"
  shows "(if M * 4096 + C * 16 < 32768 then M * 4096 + C * 16 else M * 4096 + C * 16 - 65536)
           div 16 = (if M * 256 + C < 2048 then M * 256 + C else M * 256 + C - 4096)"
proof -
  have e: "M * 4096 + C * 16 = 16 * (M * 256 + C)"
    "M * 4096 + C * 16 - 65536 = 16 * (M * 256 + C - 4096)" by simp_all
  have c: "(M * 4096 + C * 16 < 32768) = (M * 256 + C < 2048)" by linarith
  show ?thesis unfolding c unfolding e by simp
qed

lemma ucast_8_16: "uint (ucast (a :: u8) :: 16 word) = uint a"
  by (simp add: uint_up_ucast is_up)

lemma rubicson_temp_arith:
  "sint (rubicson_temp p) =
     (let u = (uint (bb p 0 1) mod 16) * 256 + uint (bb p 0 2)
      in if u < 2048 then u else u - 4096)"
proof -
  let ?c1 = "bb p 0 1" and ?c2 = "bb p 0 2"
  let ?w = "push_bit 12 (ucast ?c1) OR push_bit 4 (ucast ?c2) :: 16 word"
  have m: "0 \<le> uint ?c1 mod 16 \<and> uint ?c1 mod 16 < 16" by simp
  have c: "0 \<le> uint ?c2 \<and> uint ?c2 < 256" using uint8_lt [of ?c2] by simp
  have "uint (push_bit 12 (ucast ?c1 :: 16 word)) = take_bit 16 (push_bit 12 (uint ?c1))"
    by (simp add: unsigned_push_bit_eq ucast_8_16)
  also have "\<dots> = push_bit 12 (take_bit 4 (uint ?c1))"
    by (simp add: take_bit_push_bit)
  finally have hi: "uint (push_bit 12 (ucast ?c1 :: 16 word)) = push_bit 12 (uint ?c1 mod 16)"
    by (simp add: take_bit_eq_mod)
  have "uint (push_bit 4 (ucast ?c2 :: 16 word)) = take_bit 16 (push_bit 4 (uint ?c2))"
    by (simp add: unsigned_push_bit_eq ucast_8_16)
  also have "\<dots> = push_bit 4 (uint ?c2)"
    using c by (intro take_bit_int_eq_self) (simp_all add: push_bit_eq_mult)
  finally have lo: "uint (push_bit 4 (ucast ?c2 :: 16 word)) = uint ?c2 * 16"
    by (simp add: push_bit_eq_mult)
  have d: "0 \<le> uint ?c2 * 16" "uint ?c2 * 16 < 2 ^ 12" using c by simp_all
  have "uint ?w = push_bit 12 (uint ?c1 mod 16) OR uint ?c2 * 16"
    by (simp only: uint_or hi lo)
  also have "\<dots> = (uint ?c1 mod 16) * 2 ^ 12 + uint ?c2 * 16"
    by (rule or_low_int [OF d])
  finally have w: "uint ?w = (uint ?c1 mod 16) * 4096 + uint ?c2 * 16" by simp
  have "sint (rubicson_temp p) = sint ?w div 16"
    by (simp only: rubicson_temp_16 sint_signed_drop_bit_eq drop_bit_eq_div) simp
  also have "\<dots> = (if (uint ?c1 mod 16) * 4096 + uint ?c2 * 16 < 32768
                    then (uint ?c1 mod 16) * 4096 + uint ?c2 * 16
                    else (uint ?c1 mod 16) * 4096 + uint ?c2 * 16 - 65536) div 16"
    by (simp only: sint16_of_uint w)
  also have "\<dots> = (if (uint ?c1 mod 16) * 256 + uint ?c2 < 2048
                    then (uint ?c1 mod 16) * 256 + uint ?c2
                    else (uint ?c1 mod 16) * 256 + uint ?c2 - 4096)"
    using m c by (intro signed_nibbles_div16') simp_all
  finally show ?thesis by (simp only: Let_def)
qed

text \<open>The field lines as arithmetic on the bytes of row 1 and row 0.\<close>

lemma prologue_lines_arith:
  "prologue_lines p =
     (let a0 = uint (bb p 1 0); a1 = uint (bb p 1 1);
          a2 = uint (bb p 1 2); a3 = uint (bb p 1 3);
          t = (if a2 < 128 then a2 * 16 + a3 div 16 else a2 * 16 + a3 div 16 - 4096);
          rid = (a0 mod 16) * 16 + a1 div 16
      in [''button        = '' @ fmt_d (a1 div 4 mod 2) @ ''\<newline>'',
          ''first reading = '' @ fmt_d (1 - a1 div 8 mod 2) @ ''\<newline>'',
          ''temp          = '' @ (if t < 0 then ''-'' else '''') @ fmt_d (\<bar>t\<bar> div 10) @ ''.''
             @ fmt_d (\<bar>t\<bar> mod 10) @ ''\<newline>'',
          ''channel       = '' @ fmt_d (a1 mod 4 + 1) @ ''\<newline>'',
          ''id            = '' @ fmt_d (a0 div 16) @ ''\<newline>'',
          ''rid           = '' @ fmt_d rid @ ''\<newline>'',
          ''hrid          = '' @ fmt_02x rid @ ''\<newline>''])"
  by (simp only: prologue_lines_def byte_flag4 byte_flag8 fmt_temp_arith prologue_temp_arith
      prologue_channel_def byte_low2 byte_id prologue_rid_arith Let_def append_assoc)

lemma rubicson_lines_arith:
  "rubicson_lines p =
     (let c0 = uint (bb p 0 0); c1 = uint (bb p 0 1); c2 = uint (bb p 0 2);
          t = (if (c1 mod 16) * 256 + c2 < 2048 then (c1 mod 16) * 256 + c2
               else (c1 mod 16) * 256 + c2 - 4096)
      in [''rid = '' @ fmt_x c0 @ ''\<newline>'',
          ''temp = '' @ (if t < 0 then ''-'' else '''') @ fmt_d (\<bar>t\<bar> div 10) @ ''.''
             @ fmt_d (\<bar>t\<bar> mod 10) @ ''\<newline>''])"
  by (simp only: rubicson_lines_def fmt_temp_arith rubicson_temp_arith Let_def append_assoc)

lemma print_arith:
  "demod_print_bits_packet q =
     [''\<newline>''] @ dump_rows q @ [''\<newline>'']
     @ [fmt_02x (uint (bits_buffer q ! 1 ! 0)) @ '' '' @ fmt_02x (uint (bits_buffer q ! 1 ! 1)) @ '' ''
              @ fmt_02x (uint (bits_buffer q ! 1 ! 2)) @ '' '' @ fmt_02x (uint (bits_buffer q ! 1 ! 3)) @ '' ''
              @ fmt_02x (uint (bits_buffer q ! 1 ! 4)) @ ''\<newline>'']
     @ (let a0 = uint (bits_buffer q ! 1 ! 0); a1 = uint (bits_buffer q ! 1 ! 1);
                  a2 = uint (bits_buffer q ! 1 ! 2); a3 = uint (bits_buffer q ! 1 ! 3);
                  t = (if a2 < 128 then a2 * 16 + a3 div 16 else a2 * 16 + a3 div 16 - 4096);
                  rid = (a0 mod 16) * 16 + a1 div 16
              in [''button        = '' @ fmt_d (a1 div 4 mod 2) @ ''\<newline>'',
                  ''first reading = '' @ fmt_d (1 - a1 div 8 mod 2) @ ''\<newline>'',
                  ''temp          = '' @ (if t < 0 then ''-'' else '''') @ fmt_d (\<bar>t\<bar> div 10)
                     @ ''.'' @ fmt_d (\<bar>t\<bar> mod 10) @ ''\<newline>'',
                  ''channel       = '' @ fmt_d (a1 mod 4 + 1) @ ''\<newline>'',
                  ''id            = '' @ fmt_d (a0 div 16) @ ''\<newline>'',
                  ''rid           = '' @ fmt_d rid @ ''\<newline>'',
                  ''hrid          = '' @ fmt_02x rid @ ''\<newline>''])
     @ (let c0 = uint (bits_buffer q ! 0 ! 0); c1 = uint (bits_buffer q ! 0 ! 1);
                  c2 = uint (bits_buffer q ! 0 ! 2);
                  t = (if (c1 mod 16) * 256 + c2 < 2048 then (c1 mod 16) * 256 + c2
                       else (c1 mod 16) * 256 + c2 - 4096)
              in [''rid = '' @ fmt_x c0 @ ''\<newline>'',
                  ''temp = '' @ (if t < 0 then ''-'' else '''') @ fmt_d (\<bar>t\<bar> div 10)
                     @ ''.'' @ fmt_d (\<bar>t\<bar> mod 10) @ ''\<newline>''])
     @ [''\<newline>'']"
  unfolding demod_print_bits_packet_def prologue_lines_arith rubicson_lines_arith bb_def ..

text \<open>
  C10: whenever an iteration of \<open>pwm_demod\<close> ends a packet, that is, whenever the state
  \<open>q\<close> after the pulse part has \<open>sample_counter > reset_limit\<close>, whatever the limits of
  the instance are, the iteration prints the packet of \<open>q\<close> and resets it: the flags
  \<open>start_c\<close>, \<open>sample_counter\<close> and \<open>pulse_distance\<close> are cleared, the bit buffer is
  zeroed and the write cursor is back at row 0, byte 0, bit 7. The output of the iteration
  is the output \<open>e\<close> of the pulse part followed by an empty line, the bit dump of the
  packet, an empty line, the five bytes of row 1 in hexadecimal, the seven Prologue lines,
  the two Rubicson lines and an empty line. With \<open>a0 .. a3\<close> the first four bytes of
  row 1, the Prologue lines show: button, bit 2 of \<open>a1\<close>; first reading, the complement of
  bit 3 of \<open>a1\<close>; temp, the 12-bit two's complement number made of \<open>a2\<close> and the high
  nibble of \<open>a3\<close>, in tenths; channel, the low two bits of \<open>a1\<close> plus one; id, the high
  nibble of \<open>a0\<close>; rid, in decimal and then in hexadecimal, the low nibble of \<open>a0\<close>
  followed by the high nibble of \<open>a1\<close>. With \<open>c0 .. c2\<close> the first three bytes of row 0, the
  Rubicson lines show: rid, \<open>c0\<close> in hexadecimal; temp, the 12-bit two's complement number
  made of the low nibble of \<open>c1\<close> and \<open>c2\<close>, in tenths.
\<close>

theorem packet_end_prints_both:
  assumes "pwm_demod_pulse level p s = Some (q, e)" and "reset_limit q < sample_counter q"
  shows "pwm_demod_sample level p s =
     Some (q\<lparr>start_c := 0, sample_counter := 0, pulse_distance := 0,
               bits_buffer := replicate 12 (replicate 5 0), bits_col_idx := 0,
               bits_bit_col_idx := 7, bits_row_idx := 0\<rparr>,
           e @ [''\<newline>''] @ dump_rows q @ [''\<newline>'']
           @ [fmt_02x (uint (bits_buffer q ! 1 ! 0)) @ '' '' @ fmt_02x (uint (bits_buffer q ! 1 ! 1)) @ '' ''
              @ fmt_02x (uint (bits_buffer q ! 1 ! 2)) @ '' '' @ fmt_02x (uint (bits_buffer q ! 1 ! 3)) @ '' ''
              @ fmt_02x (uint (bits_buffer q ! 1 ! 4)) @ ''\<newline>'']
           @ (let a0 = uint (bits_buffer q ! 1 ! 0); a1 = uint (bits_buffer q ! 1 ! 1);
                  a2 = uint (bits_buffer q ! 1 ! 2); a3 = uint (bits_buffer q ! 1 ! 3);
                  t = (if a2 < 128 then a2 * 16 + a3 div 16 else a2 * 16 + a3 div 16 - 4096);
                  rid = (a0 mod 16) * 16 + a1 div 16
              in [''button        = '' @ fmt_d (a1 div 4 mod 2) @ ''\<newline>'',
                  ''first reading = '' @ fmt_d (1 - a1 div 8 mod 2) @ ''\<newline>'',
                  ''temp          = '' @ (if t < 0 then ''-'' else '''') @ fmt_d (\<bar>t\<bar> div 10)
                     @ ''.'' @ fmt_d (\<bar>t\<bar> mod 10) @ ''\<newline>'',
                  ''channel       = '' @ fmt_d (a1 mod 4 + 1) @ ''\<newline>'',
                  ''id            = '' @ fmt_d (a0 div 16) @ ''\<newline>'',
                  ''rid           = '' @ fmt_d rid @ ''\<newline>'',
                  ''hrid          = '' @ fmt_02x rid @ ''\<newline>''])
           @ (let c0 = uint (bits_buffer q ! 0 ! 0); c1 = uint (bits_buffer q ! 0 ! 1);
                  c2 = uint (bits_buffer q ! 0 ! 2);
                  t = (if (c1 mod 16) * 256 + c2 < 2048 then (c1 mod 16) * 256 + c2
                       else (c1 mod 16) * 256 + c2 - 4096)
              in [''rid = '' @ fmt_x c0 @ ''\<newline>'',
                  ''temp = '' @ (if t < 0 then ''-'' else '''') @ fmt_d (\<bar>t\<bar> div 10)
                     @ ''.'' @ fmt_d (\<bar>t\<bar> mod 10) @ ''\<newline>''])
           @ [''\<newline>''])"
proof -
  let ?q1 = "q\<lparr>start_c := 0, sample_counter := 0, pulse_distance := 0\<rparr>"
  have pr: "demod_print_bits_packet ?q1 = demod_print_bits_packet q"
    by (rule print_cong) simp
  have rs: "demod_reset_bits_packet ?q1 = q\<lparr>start_c := 0, sample_counter := 0, pulse_distance := 0,
               bits_buffer := replicate 12 (replicate 5 0), bits_col_idx := 0,
               bits_bit_col_idx := 7, bits_row_idx := 0\<rparr>"
    by (simp add: demod_reset_bits_packet_def BITBUF_ROWS_def BITBUF_COLS_def)
  from assms have "pwm_demod_sample level p s =
      Some (demod_reset_bits_packet ?q1, e @ demod_print_bits_packet ?q1)"
    by (simp add: pwm_demod_sample_def pwm_demod_reset_def Let_def)
  then have "pwm_demod_sample level p s = Some (q\<lparr>start_c := 0, sample_counter := 0, pulse_distance := 0,
               bits_buffer := replicate 12 (replicate 5 0), bits_col_idx := 0,
               bits_bit_col_idx := 7, bits_row_idx := 0\<rparr>, e @ demod_print_bits_packet q)"
    by (simp only: pr rs)
  then show ?thesis by (simp only: print_arith)
qed

theorem packet_end_prints_both_witness:
  "pwm_demod_pulse 10000 (rubicson_packet_end 5000) 0 = Some (rubicson_packet_end 5001, [])
   \<and> reset_limit (rubicson_packet_end 5001) < sample_counter (rubicson_packet_end 5001)
   \<and> pwm_demod_pulse 10000 (prologue_packet_end 15000) 0 = Some (prologue_packet_end 15001, [])
   \<and> reset_limit (prologue_packet_end 15001) < sample_counter (prologue_packet_end 15001)
   \<and> bits_buffer (rubicson_packet_end 5001) ! 0 = [0xA0, 0x07, 0xB0, 0x00, 0x00]
   \<and> bits_buffer (rubicson_packet_end 5001) ! 1 = [0x95, 0xA1, 0x00, 0xEA, 0xCC]
   \<and> bits_buffer (prologue_packet_end 15001) ! 0 = [0xA0, 0x07, 0xB0, 0x00, 0x00]
   \<and> bits_buffer (prologue_packet_end 15001) ! 1 = [0x95, 0xA1, 0x00, 0xEA, 0xCC]
   \<and> pwm_demod_sample 10000 (rubicson_packet_end 5000) 0 =
       Some (rubicson_init,
             [''\<newline>''] @ dump_rows (rubicson_packet_end 5001) @ [''\<newline>'']
             @ [''95 a1 00 ea cc\<newline>'']
             @ [''button        = 0\<newline>'', ''first reading = 1\<newline>'',
          ''temp          = 1.4\<newline>'', ''channel       = 2\<newline>'',
          ''id            = 9\<newline>'', ''rid           = 90\<newline>'',
          ''hrid          = 5a\<newline>'']
             @ [''rid = a0\<newline>'', ''temp = 196.8\<newline>'']
             @ [''\<newline>''])
   \<and> pwm_demod_sample 10000 (prologue_packet_end 15000) 0 =
       Some (prologue_init,
             [''\<newline>''] @ dump_rows (prologue_packet_end 15001) @ [''\<newline>'']
             @ [''95 a1 00 ea cc\<newline>'']
             @ [''button        = 0\<newline>'', ''first reading = 1\<newline>'',
          ''temp          = 1.4\<newline>'', ''channel       = 2\<newline>'',
          ''id            = 9\<newline>'', ''rid           = 90\<newline>'',
          ''hrid          = 5a\<newline>'']
             @ [''rid = a0\<newline>'', ''temp = 196.8\<newline>'']
             @ [''\<newline>''])"
proof -
  have a: "pwm_demod_pulse 10000 (rubicson_packet_end 5000) 0
             = Some (rubicson_packet_end 5001, [])"
    by (simp add: pwm_demod_pulse_def rubicson_packet_end_def rubicson_gap_def)
  have a': "reset_limit (rubicson_packet_end 5001) < sample_counter (rubicson_packet_end 5001)"
    by (simp add: rubicson_packet_end_def rubicson_gap_def)
  have b: "pwm_demod_pulse 10000 (prologue_packet_end 15000) 0
             = Some (prologue_packet_end 15001, [])"
    by (simp add: pwm_demod_pulse_def prologue_packet_end_def prologue_gap_def prologue_init_def
        protocol_init_def demod_reset_bits_packet_def)
  have b': "reset_limit (prologue_packet_end 15001) < sample_counter (prologue_packet_end 15001)"
    by (simp add: prologue_packet_end_def prologue_gap_def prologue_init_def protocol_init_def
        demod_reset_bits_packet_def)
  have rows: "bits_buffer (rubicson_packet_end 5001) ! 0 = [0xA0, 0x07, 0xB0, 0x00, 0x00]"
    "bits_buffer (rubicson_packet_end 5001) ! 1 = [0x95, 0xA1, 0x00, 0xEA, 0xCC]"
    "bits_buffer (prologue_packet_end 15001) ! 0 = [0xA0, 0x07, 0xB0, 0x00, 0x00]"
    "bits_buffer (prologue_packet_end 15001) ! 1 = [0x95, 0xA1, 0x00, 0xEA, 0xCC]"
    by (simp_all add: rubicson_packet_end_def prologue_packet_end_def scenario_packet_def)
  have ra: "(rubicson_packet_end 5001)\<lparr>start_c := 0, sample_counter := 0, pulse_distance := 0,
               bits_buffer := replicate 12 (replicate 5 0), bits_col_idx := 0,
               bits_bit_col_idx := 7, bits_row_idx := 0\<rparr> = rubicson_init"
    by (simp add: rubicson_packet_end_def rubicson_gap_def rubicson_init_eq BITBUF_ROWS_def
        BITBUF_COLS_def)
  have rb: "(prologue_packet_end 15001)\<lparr>start_c := 0, sample_counter := 0, pulse_distance := 0,
               bits_buffer := replicate 12 (replicate 5 0), bits_col_idx := 0,
               bits_bit_col_idx := 7, bits_row_idx := 0\<rparr> = prologue_init"
    by (simp add: prologue_packet_end_def prologue_gap_def prologue_init_def protocol_init_def
        demod_reset_bits_packet_def BITBUF_ROWS_def BITBUF_COLS_def)
  have ha: "[fmt_02x (uint (bits_buffer (rubicson_packet_end 5001) ! 1 ! 0)) @ '' '' @ fmt_02x (uint (bits_buffer (rubicson_packet_end 5001) ! 1 ! 1)) @ '' ''
              @ fmt_02x (uint (bits_buffer (rubicson_packet_end 5001) ! 1 ! 2)) @ '' '' @ fmt_02x (uint (bits_buffer (rubicson_packet_end 5001) ! 1 ! 3)) @ '' ''
              @ fmt_02x (uint (bits_buffer (rubicson_packet_end 5001) ! 1 ! 4)) @ ''\<newline>''] = [''95 a1 00 ea cc\<newline>'']"
    by code_simp
  have pa: "(let a0 = uint (bits_buffer (rubicson_packet_end 5001) ! 1 ! 0); a1 = uint (bits_buffer (rubicson_packet_end 5001) ! 1 ! 1);
                  a2 = uint (bits_buffer (rubicson_packet_end 5001) ! 1 ! 2); a3 = uint (bits_buffer (rubicson_packet_end 5001) ! 1 ! 3);
                  t = (if a2 < 128 then a2 * 16 + a3 div 16 else a2 * 16 + a3 div 16 - 4096);
                  rid = (a0 mod 16) * 16 + a1 div 16
              in [''button        = '' @ fmt_d (a1 div 4 mod 2) @ ''\<newline>'',
                  ''first reading = '' @ fmt_d (1 - a1 div 8 mod 2) @ ''\<newline>'',
                  ''temp          = '' @ (if t < 0 then ''-'' else '''') @ fmt_d (\<bar>t\<bar> div 10)
                     @ ''.'' @ fmt_d (\<bar>t\<bar> mod 10) @ ''\<newline>'',
                  ''channel       = '' @ fmt_d (a1 mod 4 + 1) @ ''\<newline>'',
                  ''id            = '' @ fmt_d (a0 div 16) @ ''\<newline>'',
                  ''rid           = '' @ fmt_d rid @ ''\<newline>'',
                  ''hrid          = '' @ fmt_02x rid @ ''\<newline>'']) = [''button        = 0\<newline>'', ''first reading = 1\<newline>'',
          ''temp          = 1.4\<newline>'', ''channel       = 2\<newline>'',
          ''id            = 9\<newline>'', ''rid           = 90\<newline>'',
          ''hrid          = 5a\<newline>'']"
    by code_simp
  have la: "(let c0 = uint (bits_buffer (rubicson_packet_end 5001) ! 0 ! 0); c1 = uint (bits_buffer (rubicson_packet_end 5001) ! 0 ! 1);
                  c2 = uint (bits_buffer (rubicson_packet_end 5001) ! 0 ! 2);
                  t = (if (c1 mod 16) * 256 + c2 < 2048 then (c1 mod 16) * 256 + c2
                       else (c1 mod 16) * 256 + c2 - 4096)
              in [''rid = '' @ fmt_x c0 @ ''\<newline>'',
                  ''temp = '' @ (if t < 0 then ''-'' else '''') @ fmt_d (\<bar>t\<bar> div 10)
                     @ ''.'' @ fmt_d (\<bar>t\<bar> mod 10) @ ''\<newline>'']) = [''rid = a0\<newline>'', ''temp = 196.8\<newline>'']"
    by code_simp
  have hb: "[fmt_02x (uint (bits_buffer (prologue_packet_end 15001) ! 1 ! 0)) @ '' '' @ fmt_02x (uint (bits_buffer (prologue_packet_end 15001) ! 1 ! 1)) @ '' ''
              @ fmt_02x (uint (bits_buffer (prologue_packet_end 15001) ! 1 ! 2)) @ '' '' @ fmt_02x (uint (bits_buffer (prologue_packet_end 15001) ! 1 ! 3)) @ '' ''
              @ fmt_02x (uint (bits_buffer (prologue_packet_end 15001) ! 1 ! 4)) @ ''\<newline>''] = [''95 a1 00 ea cc\<newline>'']"
    by code_simp
  have pb: "(let a0 = uint (bits_buffer (prologue_packet_end 15001) ! 1 ! 0); a1 = uint (bits_buffer (prologue_packet_end 15001) ! 1 ! 1);
                  a2 = uint (bits_buffer (prologue_packet_end 15001) ! 1 ! 2); a3 = uint (bits_buffer (prologue_packet_end 15001) ! 1 ! 3);
                  t = (if a2 < 128 then a2 * 16 + a3 div 16 else a2 * 16 + a3 div 16 - 4096);
                  rid = (a0 mod 16) * 16 + a1 div 16
              in [''button        = '' @ fmt_d (a1 div 4 mod 2) @ ''\<newline>'',
                  ''first reading = '' @ fmt_d (1 - a1 div 8 mod 2) @ ''\<newline>'',
                  ''temp          = '' @ (if t < 0 then ''-'' else '''') @ fmt_d (\<bar>t\<bar> div 10)
                     @ ''.'' @ fmt_d (\<bar>t\<bar> mod 10) @ ''\<newline>'',
                  ''channel       = '' @ fmt_d (a1 mod 4 + 1) @ ''\<newline>'',
                  ''id            = '' @ fmt_d (a0 div 16) @ ''\<newline>'',
                  ''rid           = '' @ fmt_d rid @ ''\<newline>'',
                  ''hrid          = '' @ fmt_02x rid @ ''\<newline>'']) = [''button        = 0\<newline>'', ''first reading = 1\<newline>'',
          ''temp          = 1.4\<newline>'', ''channel       = 2\<newline>'',
          ''id            = 9\<newline>'', ''rid           = 90\<newline>'',
          ''hrid          = 5a\<newline>'']"
    by code_simp
  have lb: "(let c0 = uint (bits_buffer (prologue_packet_end 15001) ! 0 ! 0); c1 = uint (bits_buffer (prologue_packet_end 15001) ! 0 ! 1);
                  c2 = uint (bits_buffer (prologue_packet_end 15001) ! 0 ! 2);
                  t = (if (c1 mod 16) * 256 + c2 < 2048 then (c1 mod 16) * 256 + c2
                       else (c1 mod 16) * 256 + c2 - 4096)
              in [''rid = '' @ fmt_x c0 @ ''\<newline>'',
                  ''temp = '' @ (if t < 0 then ''-'' else '''') @ fmt_d (\<bar>t\<bar> div 10)
                     @ ''.'' @ fmt_d (\<bar>t\<bar> mod 10) @ ''\<newline>'']) = [''rid = a0\<newline>'', ''temp = 196.8\<newline>'']"
    by code_simp
  from packet_end_prints_both [OF a a']
  have c: "pwm_demod_sample 10000 (rubicson_packet_end 5000) 0 =
       Some (rubicson_init,
             [''\<newline>''] @ dump_rows (rubicson_packet_end 5001) @ [''\<newline>'']
             @ [''95 a1 00 ea cc\<newline>'']
             @ [''button        = 0\<newline>'', ''first reading = 1\<newline>'',
          ''temp          = 1.4\<newline>'', ''channel       = 2\<newline>'',
          ''id            = 9\<newline>'', ''rid           = 90\<newline>'',
          ''hrid          = 5a\<newline>'']
             @ [''rid = a0\<newline>'', ''temp = 196.8\<newline>'']
             @ [''\<newline>''])"
    by (simp only: ra ha pa la append_Nil)
  from packet_end_prints_both [OF b b']
  have d: "pwm_demod_sample 10000 (prologue_packet_end 15000) 0 =
       Some (prologue_init,
             [''\<newline>''] @ dump_rows (prologue_packet_end 15001) @ [''\<newline>'']
             @ [''95 a1 00 ea cc\<newline>'']
             @ [''button        = 0\<newline>'', ''first reading = 1\<newline>'',
          ''temp          = 1.4\<newline>'', ''channel       = 2\<newline>'',
          ''id            = 9\<newline>'', ''rid           = 90\<newline>'',
          ''hrid          = 5a\<newline>'']
             @ [''rid = a0\<newline>'', ''temp = 196.8\<newline>'']
             @ [''\<newline>''])"
    by (simp only: rb hb pb lb append_Nil)
  from a a' b b' rows c d show ?thesis by (intro conjI)
qed

section \<open>The low-pass filter across block boundaries\<close>

text \<open>The products and sums in \<open>lp_sample\<close> stay inside the range of a 32-bit \<open>int\<close>, so
  the C arithmetic is that of the integers.\<close>

lemma lp_sample_int32:
  fixes y :: i16 and x0 x1 :: u16
  defines "ta \<equiv> coeff_a ! 1 * sint y"
    and "tb \<equiv> coeff_b ! 0 * uint x0"
    and "tc \<equiv> coeff_b ! 1 * uint x1"
  shows "- (2 ^ 31) \<le> ta \<and> ta < 2 ^ 31 \<and> 0 \<le> tb \<and> tb < 2 ^ 31 \<and> 0 \<le> tc \<and> tc < 2 ^ 31
         \<and> - (2 ^ 31) \<le> drop_bit 1 ta + drop_bit 1 tb + drop_bit 1 tc
         \<and> drop_bit 1 ta + drop_bit 1 tb + drop_bit 1 tc < 2 ^ 31"
proof -
  have y: "- 32768 \<le> sint y" "sint y < 32768"
    using sint_ge [of y] sint_lt [of y] by simp_all
  have x: "0 \<le> uint x0" "uint x0 < 65536" "0 \<le> uint x1" "uint x1 < 65536"
    using uint_lt2p [of x0] uint_lt2p [of x1] by simp_all
  from y x show ?thesis
    unfolding ta_def tb_def tc_def
    by (simp add: coeff_a_def coeff_b_def drop_bit_eq_div)
      (insert uint_ge_0 [of x0] uint_ge_0 [of x1], linarith)
qed

text \<open>
  What every call of the filter saves for the next call: the input and the output at
  index \<open>len - 2\<close>, the last but one of the block.
\<close>

lemma low_pass_filter_saves:
  assumes "low_pass_filter x_buf len st = Some (xm, fb)"
  shows "xm = x_buf ! (len - 2) \<and> fb 0 = f_buf fb len ! (len - 2)"
proof -
  obtain xm0 fb0 where st: "st = (xm0, fb0)" by (cases st)
  from assms st have len: "2 \<le> len"
    by (auto simp: low_pass_filter_def FILTER_ORDER_def split: if_splits)
  then have idx: "len - 1 - 1 = len - 2" "len - 2 + 1 = len - 1" "len - 1 \<noteq> 0"
    by simp_all
  from assms st len have "xm = x_buf ! (len - 2)" "fb 0 = fb (len - 1)"
    by (auto simp only: low_pass_filter_def FILTER_ORDER_def Let_def idx prod.case
        option.inject prod.inject fun_upd_apply split: if_splits)
  moreover from len have "Suc (len - 2) = len - 1" by simp
  with len have "f_buf fb len ! (len - 2) = fb (len - 1)"
    by (simp add: f_buf_def FILTER_ORDER_def)
  ultimately show ?thesis by simp
qed


text \<open>
  C1 fails on the code. Started as \<open>main\<close> starts it (saved input 0, buffer cleared), the
  filter turns the block \<open>1000, 30000, 30000, 30000\<close> into \<open>15, 493, 1404, 2287\<close> in one
  call. Called on the first two samples it returns \<open>15, 493\<close> and saves the input 1000
  and the output 15, the first sample of that block and not the last; the next call on
  the last two samples then returns \<open>493, 1404\<close>, one sample behind the single call.
\<close>

theorem low_pass_filter_two_calls_lag:
  "filter_result 4 (low_pass_filter [1000, 30000, 30000, 30000] 4 (0, \<lambda>i. 0))
     = Some (30000, 1404, [15, 493, 1404, 2287])
   \<and> filter_result 2 (low_pass_filter [1000, 30000] 2 (0, \<lambda>i. 0))
     = Some (1000, 15, [15, 493])
   \<and> filter_result 2
        (Option.bind (low_pass_filter [1000, 30000] 2 (0, \<lambda>i. 0))
           (low_pass_filter [30000, 30000] 2))
     = Some (30000, 493, [493, 1404])
   \<and> [15, 493] @ [493, 1404] \<noteq> [15, 493, 1404, 2287 :: i16]"
  by (simp add: low_pass_filter_def FILTER_ORDER_def MAXIMAL_BUF_LENGTH_def f_buf_def
      lp_sample_def coeff_a_def coeff_b_def F_SCALE_def lp_loop.simps filter_result_def
      Let_def upt_conv_Cons)

section \<open>The block callback: what the consumers read\<close>

text \<open>The filter writes \<open>y_buf[0..len)\<close> and the saved output only: every element of the
  filter buffer beyond index \<open>len\<close> keeps its value.\<close>

lemma lp_loop_frame: "len < j \<Longrightarrow> lp_loop x_buf len i fb j = fb j"
proof (induction x_buf len i fb rule: lp_loop.induct)
  case (1 x_buf len i fb)
  show ?case
  proof (cases "i < len")
    case True
    let ?fb = "fb(i + FILTER_ORDER :=
                    lp_sample (fb (i - 1 + FILTER_ORDER)) (x_buf ! i) (x_buf ! (i - 1)))"
    from True have "lp_loop x_buf len i fb j = lp_loop x_buf len (i + 1) ?fb j"
      by (subst lp_loop.simps) simp
    also have "\<dots> = ?fb j" by (rule "1.IH" [OF True "1.prems"])
    also from True "1.prems" have "\<dots> = fb j" by (simp add: FILTER_ORDER_def)
    finally show ?thesis .
  next
    case False
    then show ?thesis by (subst lp_loop.simps) simp
  qed
qed

lemma low_pass_filter_frame:
  assumes "low_pass_filter x_buf len (xm, fb) = Some (xm', fb')" and "len < j"
  shows "fb' j = fb j"
  using assms
  by (auto simp: low_pass_filter_def Let_def lp_loop_frame FILTER_ORDER_def split: if_splits)

text \<open>
  C4 fails on the code when the decimation is not 0. With \<open>-c 1\<close> and a block of 8 bytes
  the filter is called with the length \<open>8 >> 2 = 2\<close> and writes the two samples 498 and
  1478; \<open>f_buf[2]\<close> and \<open>f_buf[3]\<close> keep the zeros of the cleared buffer. The consumers
  are called with the length \<open>8/2 = 4\<close>: after the callback both protocol instances have
  left the pulse (\<open>pulse_count = 0\<close>, \<open>pulse_distance = 1\<close>), as \<open>pwm_demod\<close> does on the four
  samples \<open>498, 1478, 0, 0\<close>, while on the two filtered samples it is still inside the
  pulse (\<open>pulse_count = 1\<close>, \<open>pulse_distance = 0\<close>).
\<close>

theorem callback_consumers_read_half_len:
  "map_option (\<lambda>(w, e). f_buf (filter_buffer (demod w)) 4)
       (rtlsdr_callback (replicate 8 0xFF) 0 pipeline_c1_l100)
     = Some [498, 1478, 0, 0]
   \<and> map_option (demod_flags \<circ> prologue \<circ> demod \<circ> fst)
       (rtlsdr_callback (replicate 8 0xFF) 0 pipeline_c1_l100)
     = Some (0, 1, 2)
   \<and> map_option (demod_flags \<circ> rubicson \<circ> demod \<circ> fst)
       (rtlsdr_callback (replicate 8 0xFF) 0 pipeline_c1_l100)
     = Some (0, 1, 2)
   \<and> map_option (demod_flags \<circ> fst) (pwm_demod 100 prologue_init [498, 1478, 0, 0])
     = Some (0, 1, 2)
   \<and> map_option (demod_flags \<circ> fst) (pwm_demod 100 prologue_init [498, 1478])
     = Some (1, 0, 2)"
  by (simp add: rtlsdr_callback_def pipeline_c1_l100_def pipeline_init_def dm_init_def
      callback_block_def envelope_detect_def envelope_loop.simps envelope_sample_def
      low_pass_filter_def FILTER_ORDER_def MAXIMAL_BUF_LENGTH_def f_buf_def
      lp_sample_def coeff_a_def coeff_b_def F_SCALE_def lp_loop.simps
      Let_def upt_conv_Cons callback_consume_def callback_save_def prologue_init_def
      rubicson_init_def protocol_init_def demod_reset_bits_packet_def pwm_demod_sample_def
      pwm_demod_pulse_def pwm_demod_reset_def demod_flags_def)

theorem callback_consumers_read_half_len_witness:
  "file_sink (demod pipeline_c1_l100) = None \<and> save_data (demod pipeline_c1_l100) = 0
   \<and> do_exit pipeline_c1_l100 = 0 \<and> bytes_to_read pipeline_c1_l100 = 0
   \<and> map_option (demod_flags \<circ> prologue \<circ> demod \<circ> fst)
         (rtlsdr_callback (replicate 8 0xFF) 0 pipeline_c1_l100)
       \<noteq> map_option (demod_flags \<circ> fst) (pwm_demod 100 prologue_init [498, 1478])"
proof -
  have "file_sink (demod pipeline_c1_l100) = None \<and> save_data (demod pipeline_c1_l100) = 0
    \<and> do_exit pipeline_c1_l100 = 0 \<and> bytes_to_read pipeline_c1_l100 = 0"
    by (simp add: pipeline_c1_l100_def pipeline_init_def dm_init_def)
  moreover from callback_consumers_read_half_len
  have "map_option (demod_flags \<circ> prologue \<circ> demod \<circ> fst)
         (rtlsdr_callback (replicate 8 0xFF) 0 pipeline_c1_l100)
       \<noteq> map_option (demod_flags \<circ> fst) (pwm_demod 100 prologue_init [498, 1478])"
    by (elim conjE) (simp only:, simp)
  ultimately show ?thesis by (intro conjI) simp_all
qed

end
